theory Spec2Isabelle
  imports Complex_Main
begin

section \<open>JavaScript values used by the scoring engine\<close>

text \<open>
  A JavaScript number is modelled as an exact real or \<open>NaN\<close>. The engine divides only by
  non-zero constants, so no infinity arises from finite operands; infinite operands and
  the rounding of IEEE doubles are not modelled. Comparisons with \<open>NaN\<close> are false,
  arithmetic with \<open>NaN\<close> is \<open>NaN\<close>, and \<open>Math.max\<close>/\<open>Math.min\<close> return \<open>NaN\<close> as soon as
  one argument is \<open>NaN\<close>.
\<close>

datatype jsnum = Fin real | NaN

fun js_ge :: "jsnum \<Rightarrow> jsnum \<Rightarrow> bool" where
  "js_ge (Fin a) (Fin b) = (b \<le> a)"
| "js_ge _ _ = False"

fun js_gt :: "jsnum \<Rightarrow> jsnum \<Rightarrow> bool" where
  "js_gt (Fin a) (Fin b) = (b < a)"
| "js_gt _ _ = False"

fun js_add :: "jsnum \<Rightarrow> jsnum \<Rightarrow> jsnum" where
  "js_add (Fin a) (Fin b) = Fin (a + b)"
| "js_add _ _ = NaN"

fun js_sub :: "jsnum \<Rightarrow> jsnum \<Rightarrow> jsnum" where
  "js_sub (Fin a) (Fin b) = Fin (a - b)"
| "js_sub _ _ = NaN"

fun js_mul :: "jsnum \<Rightarrow> jsnum \<Rightarrow> jsnum" where
  "js_mul (Fin a) (Fin b) = Fin (a * b)"
| "js_mul _ _ = NaN"

text \<open>Division is only ever by a non-zero constant, passed as a real.\<close>

fun js_div :: "jsnum \<Rightarrow> real \<Rightarrow> jsnum" where
  "js_div (Fin a) d = Fin (a / d)"
| "js_div NaN d = NaN"

fun Math_max :: "jsnum \<Rightarrow> jsnum \<Rightarrow> jsnum" where
  "Math_max (Fin a) (Fin b) = Fin (max a b)"
| "Math_max _ _ = NaN"

fun Math_min :: "jsnum \<Rightarrow> jsnum \<Rightarrow> jsnum" where
  "Math_min (Fin a) (Fin b) = Fin (min a b)"
| "Math_min _ _ = NaN"

text \<open>\<open>Math.round\<close> rounds to the nearest integer, halves upwards.\<close>

fun Math_round :: "jsnum \<Rightarrow> jsnum" where
  "Math_round (Fin a) = Fin (of_int \<lfloor>a + 1 / 2\<rfloor>)"
| "Math_round NaN = NaN"

text \<open>\<open>Math.pow(x, 1.8)\<close>: \<open>NaN\<close> for a negative base, the real power otherwise.\<close>

fun Math_pow_1_8 :: "jsnum \<Rightarrow> jsnum" where
  "Math_pow_1_8 (Fin a) = (if a < 0 then NaN else Fin (a powr (18 / 10)))"
| "Math_pow_1_8 NaN = NaN"

text \<open>\<open>const clamp = (value, min, max) => Math.max(min, Math.min(max, value))\<close>\<close>

definition clamp :: "jsnum \<Rightarrow> jsnum \<Rightarrow> jsnum \<Rightarrow> jsnum" where
  "clamp v lo hi = Math_max lo (Math_min hi v)"

text \<open>
  The values a payload field can hold: the primitive values of JSON and \<open>undefined\<close>.
  Nested objects, arrays, functions, symbols and bigints as field values are outside the
  model. Strict equality \<open>===\<close> is only ever taken against the constants \<open>true\<close>,
  \<open>false\<close>, 0, 1 and string literals, where it coincides with equality of these values.
\<close>

datatype jsval = JUndefined | JNull | JBool bool | JNum jsnum | JStr string

text \<open>\<open>a ?? b\<close>\<close>

fun nullish :: "jsval \<Rightarrow> jsval \<Rightarrow> jsval" where
  "nullish JUndefined b = b"
| "nullish JNull b = b"
| "nullish a b = a"

fun truthy :: "jsval \<Rightarrow> bool" where
  "truthy JUndefined = False"
| "truthy JNull = False"
| "truthy (JBool b) = b"
| "truthy (JNum (Fin a)) = (a \<noteq> 0)"
| "truthy (JNum NaN) = False"
| "truthy (JStr s) = (s \<noteq> [])"

text \<open>\<open>a || b\<close>\<close>

definition js_or :: "jsval \<Rightarrow> jsval \<Rightarrow> jsval" where
  "js_or a b = (if truthy a then a else b)"

text \<open>
  The conversion to a number that \<open>Math.max\<close>, \<open>Math.min\<close> and \<open>Number\<close> apply to their
  arguments. The reading of a string as a numeric literal is a parameter \<open>s2n\<close> of the
  model: every result below holds for whatever that reading is.
\<close>

fun ToNumber :: "(string \<Rightarrow> jsnum) \<Rightarrow> jsval \<Rightarrow> jsnum" where
  "ToNumber s2n JUndefined = NaN"
| "ToNumber s2n JNull = Fin 0"
| "ToNumber s2n (JBool b) = (if b then Fin 1 else Fin 0)"
| "ToNumber s2n (JNum n) = n"
| "ToNumber s2n (JStr s) = s2n s"

text \<open>
  An object is the list of its own properties; reading a property the object does not own
  yields \<open>undefined\<close> (none of the names read by the engine is on \<open>Object.prototype\<close>).
\<close>

type_synonym jsobject = "(string \<times> jsval) list"

definition getProp :: "jsobject \<Rightarrow> string \<Rightarrow> jsval" where
  "getProp obj k = (case map_of obj k of None \<Rightarrow> JUndefined | Some v \<Rightarrow> v)"

section \<open>Configuration tables\<close>

definition FUNCTIONAL_INTEGRITY :: real where "FUNCTIONAL_INTEGRITY = 40"
definition PERFORMANCE_RETENTION :: real where "PERFORMANCE_RETENTION = 30"
definition REMAINING_LIFE :: real where "REMAINING_LIFE = 20"
definition PHYSICAL_THERMAL :: real where "PHYSICAL_THERMAL = 10"

record classification_entry =
  min' :: real
  label :: string
  description :: string

definition HIGH_GRADE :: classification_entry where
  "HIGH_GRADE = \<lparr>min' = 85, label = ''High-grade reusable'',
     description = ''Excellent condition, ready for immediate reuse''\<rparr>"

definition REUSABLE :: classification_entry where
  "REUSABLE = \<lparr>min' = 70, label = ''Reusable'',
     description = ''Good condition, minor upgrades recommended''\<rparr>"

definition LIMITED :: classification_entry where
  "LIMITED = \<lparr>min' = 50, label = ''Limited reuse'',
     description = ''Functional but with notable limitations''\<rparr>"

definition NOT_RECOMMENDED :: classification_entry where
  "NOT_RECOMMENDED = \<lparr>min' = 0, label = ''Not recommended'',
     description = ''Significant issues present, reuse not advised''\<rparr>"

definition REUSABILITY_CLASSIFICATION :: "(string \<times> classification_entry) list" where
  "REUSABILITY_CLASSIFICATION =
     [(''HIGH_GRADE'', HIGH_GRADE), (''REUSABLE'', REUSABLE),
      (''LIMITED'', LIMITED), (''NOT_RECOMMENDED'', NOT_RECOMMENDED)]"

text \<open>A scoring rule \<open>{ threshold, score }\<close> is the pair \<open>(threshold, score)\<close>.\<close>

definition PERFORMANCE_SCORING :: "(real \<times> real) list" where
  "PERFORMANCE_SCORING = [(95, 30), (90, 25), (85, 20), (80, 15), (0, 5)]"

definition SSD_WEAR_SCORING :: "(real \<times> real) list" where
  "SSD_WEAR_SCORING = [(20, 10), (40, 7), (60, 4), (100, 0)]"

definition BATTERY_HEALTH_SCORING :: "(real \<times> real) list" where
  "BATTERY_HEALTH_SCORING = [(85, 10), (70, 7), (60, 4), (0, 0)]"

record thermal_limit =
  idle :: real
  load :: real

definition THERMAL_LIMITS_normal :: thermal_limit where
  "THERMAL_LIMITS_normal = \<lparr>idle = 50, load = 85\<rparr>"

definition THERMAL_LIMITS_critical :: thermal_limit where
  "THERMAL_LIMITS_critical = \<lparr>idle = 60, load = 95\<rparr>"

section \<open>Lookup and normalization\<close>

text \<open>
  \<open>scoreLookup(value, rules)\<close>: the score of the first rule, in table order, whose
  threshold the value reaches; 0 when none does.
\<close>

fun scoreLookup :: "jsnum \<Rightarrow> (real \<times> real) list \<Rightarrow> jsnum" where
  "scoreLookup v [] = Fin 0"
| "scoreLookup v ((threshold, score) # rules) =
     (if js_ge v (Fin threshold) then Fin score else scoreLookup v rules)"

record diagnostic =
  storage_smart_status :: jsval
  ram_test_errors :: jsnum
  cpu_stress_stable :: jsval
  cpu_throttling :: jsval
  gpu_stress_stable :: jsval
  gpu_artifacts :: jsval
  performance_percentage :: jsnum
  ssd_wear_percentage :: jsnum
  battery_health_percent :: jsnum
  physical_damage :: bool
  port_integrity :: bool
  idle_temperature_celsius :: jsnum
  load_temperature_celsius :: jsnum

definition normalizeInput :: "(string \<Rightarrow> jsnum) \<Rightarrow> jsobject \<Rightarrow> diagnostic" where
  "normalizeInput s2n input =
     \<lparr>storage_smart_status = js_or (getProp input ''storage_smart_status'') (JStr ''UNKNOWN''),
      ram_test_errors =
        Math_max (Fin 0) (ToNumber s2n (nullish (getProp input ''ram_test_errors'') (JNum (Fin 0)))),
      cpu_stress_stable = nullish (getProp input ''cpu_stress_stable'') (JBool False),
      cpu_throttling = nullish (getProp input ''cpu_throttling'') (JBool False),
      gpu_stress_stable = nullish (getProp input ''gpu_stress_stable'') (JBool False),
      gpu_artifacts = nullish (getProp input ''gpu_artifacts'') (JBool False),
      performance_percentage =
        clamp (ToNumber s2n (nullish (getProp input ''performance_percentage'') (JNum (Fin 0))))
          (Fin 0) (Fin 100),
      ssd_wear_percentage =
        clamp (ToNumber s2n (nullish (getProp input ''ssd_wear_percentage'') (JNum (Fin 0))))
          (Fin 0) (Fin 100),
      battery_health_percent =
        clamp (ToNumber s2n (nullish (getProp input ''battery_health_percent'') (JNum (Fin 0))))
          (Fin 0) (Fin 100),
      physical_damage = (getProp input ''physical_damage'' = JBool True),
      port_integrity = (getProp input ''port_integrity'' \<noteq> JBool False),
      idle_temperature_celsius =
        Math_max (Fin 0)
          (ToNumber s2n (nullish (getProp input ''idle_temperature_celsius'') (JNum (Fin 0)))),
      load_temperature_celsius =
        Math_max (Fin 0)
          (ToNumber s2n (nullish (getProp input ''load_temperature_celsius'') (JNum (Fin 0))))\<rparr>"

section \<open>Standardized category scorers\<close>

text \<open>
  A category result \<open>{ score, details }\<close>. The nested detail objects are flattened into one
  record per category; their constant \<open>max: 10\<close> entries are left out. The scorers receive
  the normalized record, whose numeric fields are numbers, so the \<open>?? 0\<close> guards of the
  source are the identity there.
\<close>

record 'd category_result =
  score :: jsnum
  details :: 'd

record functional_details =
  storage_score :: jsnum
  storage_status :: jsval
  ram_score :: jsnum
  ram_errors :: jsnum
  cpu_score :: jsnum
  cpu_stable :: jsval
  cpu_throttling_flag :: jsval
  gpu_score :: jsnum
  gpu_stable :: jsval
  gpu_artifacts_flag :: jsval

definition scoreFunctionalIntegrity :: "diagnostic \<Rightarrow> functional_details category_result" where
  "scoreFunctionalIntegrity diag =
     (let storageScore =
            (if storage_smart_status diag = JStr ''GOOD'' then Fin 10
             else if storage_smart_status diag = JStr ''WARNING'' then Fin 6 else Fin 0);
          ramScore =
            (if ram_test_errors diag = Fin 0 then Fin 10
             else if ram_test_errors diag = Fin 1 then Fin 5 else Fin 0);
          cpuScore =
            (if cpu_stress_stable diag = JBool True then Fin 10
             else if cpu_stress_stable diag = JBool False \<and> truthy (cpu_throttling diag)
                  then Fin 6 else Fin 0);
          gpuScore =
            (if gpu_stress_stable diag = JBool True then Fin 10
             else if gpu_stress_stable diag = JBool False \<and> truthy (gpu_artifacts diag)
                  then Fin 5 else Fin 0);
          tscore = js_add (js_add (js_add storageScore ramScore) cpuScore) gpuScore
      in \<lparr>score = clamp tscore (Fin 0) (Fin FUNCTIONAL_INTEGRITY),
          details =
            \<lparr>storage_score = storageScore, storage_status = storage_smart_status diag,
             ram_score = ramScore, ram_errors = ram_test_errors diag,
             cpu_score = cpuScore, cpu_stable = cpu_stress_stable diag,
             cpu_throttling_flag = cpu_throttling diag,
             gpu_score = gpuScore, gpu_stable = gpu_stress_stable diag,
             gpu_artifacts_flag = gpu_artifacts diag\<rparr>\<rparr>)"

record performance_details =
  performancePercent :: jsnum
  benchmarkStatus :: string

definition scorePerformanceRetention :: "diagnostic \<Rightarrow> performance_details category_result" where
  "scorePerformanceRetention diag =
     (let perfPercent = performance_percentage diag;
          looked = (if js_gt perfPercent (Fin 0)
                    then scoreLookup perfPercent PERFORMANCE_SCORING else Fin 0)
      in \<lparr>score = clamp looked (Fin 0) (Fin PERFORMANCE_RETENTION),
          details =
            \<lparr>performancePercent = perfPercent,
             benchmarkStatus =
               (if js_gt perfPercent (Fin 0) then ''EVALUATED'' else ''NO_DATA'')\<rparr>\<rparr>)"

record remaining_details =
  ssd_score :: jsnum
  ssd_wearPercent :: jsnum
  battery_score :: jsnum
  battery_healthPercent :: jsnum

definition scoreRemainingLife :: "diagnostic \<Rightarrow> remaining_details category_result" where
  "scoreRemainingLife diag =
     (let ssdScore = scoreLookup (js_sub (Fin 100) (ssd_wear_percentage diag)) SSD_WEAR_SCORING;
          batteryScore = scoreLookup (battery_health_percent diag) BATTERY_HEALTH_SCORING;
          tscore = js_add ssdScore batteryScore
      in \<lparr>score = clamp tscore (Fin 0) (Fin REMAINING_LIFE),
          details =
            \<lparr>ssd_score = ssdScore, ssd_wearPercent = ssd_wear_percentage diag,
             battery_score = batteryScore,
             battery_healthPercent = battery_health_percent diag\<rparr>\<rparr>)"

record physical_details =
  physicalDamage :: bool
  portIntegrity :: bool
  thermalStatus :: string
  idleTemp :: jsnum
  loadTemp :: jsnum

text \<open>
  The mutable \<open>score\<close> and \<open>thermalStatus\<close> of the source are threaded through the three
  deductions in program order: \<open>afterDamage\<close>, \<open>afterPorts\<close>, then the thermal
  \<open>if / else if\<close>, which yields the final pair.
\<close>

definition scorePhysicalThermal :: "diagnostic \<Rightarrow> physical_details category_result" where
  "scorePhysicalThermal diag =
     (let afterDamage = (if physical_damage diag then js_sub (Fin 10) (Fin 4) else Fin 10);
          afterPorts = (if \<not> port_integrity diag then js_sub afterDamage (Fin 2) else afterDamage);
          idleLimit = idle THERMAL_LIMITS_normal;
          loadLimit = load THERMAL_LIMITS_normal;
          criticalIdle = idle THERMAL_LIMITS_critical;
          criticalLoad = load THERMAL_LIMITS_critical;
          idleT = idle_temperature_celsius diag;
          loadT = load_temperature_celsius diag;
          thermal =
            (if js_gt idleT (Fin criticalIdle) \<or> js_gt loadT (Fin criticalLoad)
             then (js_sub afterPorts (Fin 4), ''CRITICAL'')
             else if js_gt idleT (Fin idleLimit) \<or> js_gt loadT (Fin loadLimit)
             then (js_sub afterPorts (Fin 2), ''CONCERNING'')
             else (afterPorts, ''NORMAL''))
      in \<lparr>score = clamp (fst thermal) (Fin 0) (Fin PHYSICAL_THERMAL),
          details =
            \<lparr>physicalDamage = physical_damage diag,
             portIntegrity = port_integrity diag,
             thermalStatus = snd thermal,
             idleTemp = idleT, loadTemp = loadT\<rparr>\<rparr>)"

section \<open>Classification\<close>

text \<open>
  \<open>classifyReusability\<close> sorts the table's values by \<open>min\<close>, descending (the sort is
  stable), returns the first entry whose \<open>min\<close> the score reaches, and falls back to
  \<open>NOT_RECOMMENDED\<close>.
\<close>

fun firstReached :: "jsnum \<Rightarrow> classification_entry list \<Rightarrow> classification_entry option" where
  "firstReached totalScore [] = None"
| "firstReached totalScore (c # cs) =
     (if js_ge totalScore (Fin (min' c)) then Some c else firstReached totalScore cs)"

definition classifyReusability :: "jsnum \<Rightarrow> classification_entry" where
  "classifyReusability totalScore =
     (let classifications = sort_key (\<lambda>c. - min' c) (map snd REUSABILITY_CLASSIFICATION)
      in case firstReached totalScore classifications of
           Some c \<Rightarrow> c
         | None \<Rightarrow> NOT_RECOMMENDED)"

record classification =
  level :: string
  description :: string
  minScore :: real
  tier :: string

text \<open>
  The conditional chain that \<open>evaluateDeviceStandardized\<close> writes inline for the \<open>tier\<close>
  field of its classification object.
\<close>

definition tierTag :: "jsnum \<Rightarrow> string" where
  "tierTag tscore =
     (if js_ge tscore (Fin 85) then ''HIGH_GRADE''
      else if js_ge tscore (Fin 70) then ''REUSABLE''
      else if js_ge tscore (Fin 50) then ''LIMITED''
      else ''NOT_RECOMMENDED'')"

record standardized_result =
  model :: string
  totalScore :: jsnum
  classification :: classification
  functionalIntegrity :: "functional_details category_result"
  performanceRetention :: "performance_details category_result"
  remainingLife :: "remaining_details category_result"
  physicalThermal :: "physical_details category_result"

text \<open>
  \<open>evaluateDeviceStandardized\<close>. The result's \<open>summary\<close> and \<open>calculations\<close> strings, the
  per-category labels and percentages and the \<open>recommendedActions\<close> list are renderings of
  the fields kept here; they compare and format numbers and strings only, cannot throw,
  and are left out.
\<close>

definition evaluateDeviceStandardized :: "(string \<Rightarrow> jsnum) \<Rightarrow> jsobject \<Rightarrow> standardized_result" where
  "evaluateDeviceStandardized s2n diagnostics =
     (let diag = normalizeInput s2n diagnostics;
          functional = scoreFunctionalIntegrity diag;
          performance = scorePerformanceRetention diag;
          remaining = scoreRemainingLife diag;
          physical = scorePhysicalThermal diag;
          tscore = js_add (js_add (js_add (score functional) (score performance))
                            (score remaining)) (score physical);
          cls = classifyReusability tscore
      in \<lparr>model = ''STANDARDIZED_REUSABILITY_EVALUATION'',
          totalScore = tscore,
          classification =
            \<lparr>level = label cls,
             description = classification_entry.description cls,
             minScore = min' cls,
             tier = tierTag tscore\<rparr>,
          functionalIntegrity = functional,
          performanceRetention = performance,
          remainingLife = remaining,
          physicalThermal = physical\<rparr>)"

section \<open>Legacy component scoring\<close>

record 'a per_component =
  cpu :: 'a
  ram :: 'a
  storage :: 'a
  battery :: 'a

definition WEIGHTS :: "real per_component" where
  "WEIGHTS = \<lparr>cpu = 30 / 100, ram = 25 / 100, storage = 25 / 100, battery = 20 / 100\<rparr>"

definition MAX_SCORES :: "real per_component" where
  "MAX_SCORES = \<lparr>cpu = 30, ram = 25, storage = 25, battery = 20\<rparr>"

definition COMPONENT_THRESHOLDS_good :: real where "COMPONENT_THRESHOLDS_good = 8 / 10"
definition COMPONENT_THRESHOLDS_fair :: real where "COMPONENT_THRESHOLDS_fair = 5 / 10"
definition OVERALL_THRESHOLDS_good :: real where "OVERALL_THRESHOLDS_good = 80"
definition OVERALL_THRESHOLDS_fair :: real where "OVERALL_THRESHOLDS_fair = 55"

definition scoreCPU :: "jsnum \<Rightarrow> jsnum" where
  "scoreCPU percent =
     clamp (js_mul (js_div percent 100) (Fin (cpu MAX_SCORES))) (Fin 0) (Fin (cpu MAX_SCORES))"

definition scoreRAM :: "jsnum \<Rightarrow> jsnum" where
  "scoreRAM ramGB =
     clamp (js_mul (js_div (Math_min ramGB (Fin 32)) 32) (Fin (ram MAX_SCORES)))
       (Fin 0) (Fin (ram MAX_SCORES))"

definition scoreStorage :: "jsnum \<Rightarrow> jsnum" where
  "scoreStorage percent =
     clamp (js_mul (js_div percent 100) (Fin (storage MAX_SCORES)))
       (Fin 0) (Fin (storage MAX_SCORES))"

definition scoreBattery :: "jsnum \<Rightarrow> jsnum" where
  "scoreBattery percent =
     (let normalized = clamp (js_div percent 100) (Fin 0) (Fin 1)
      in js_mul (Math_pow_1_8 normalized) (Fin (battery MAX_SCORES)))"

definition getComponentHealth :: "jsnum \<Rightarrow> real \<Rightarrow> string" where
  "getComponentHealth sc maxScore =
     (let ratio = js_div sc maxScore
      in if js_ge ratio (Fin COMPONENT_THRESHOLDS_good) then ''GOOD''
         else if js_ge ratio (Fin COMPONENT_THRESHOLDS_fair) then ''FAIR'' else ''POOR'')"

definition getOverallHealth :: "jsnum \<Rightarrow> string" where
  "getOverallHealth tscore =
     (if js_ge tscore (Fin OVERALL_THRESHOLDS_good) then ''GOOD''
      else if js_ge tscore (Fin OVERALL_THRESHOLDS_fair) then ''FAIR'' else ''POOR'')"

text \<open>
  \<open>LONGEVITY_PENALTIES\<close> maps a health label to a value that is either a number (under
  \<open>GOOD\<close>) or a nested per-component table (under \<open>FAIR\<close> and \<open>POOR\<close>).
\<close>

datatype penalty = PNumber real | PTable "real per_component"

definition LONGEVITY_PENALTIES_FAIR :: "real per_component" where
  "LONGEVITY_PENALTIES_FAIR =
     \<lparr>cpu = 85 / 100, ram = 85 / 100, storage = 8 / 10, battery = 85 / 100\<rparr>"

definition LONGEVITY_PENALTIES_POOR :: "real per_component" where
  "LONGEVITY_PENALTIES_POOR =
     \<lparr>cpu = 7 / 10, ram = 85 / 100, storage = 8 / 10, battery = 6 / 10\<rparr>"

definition LONGEVITY_PENALTIES :: "(string \<times> penalty) list" where
  "LONGEVITY_PENALTIES =
     [(''GOOD'', PNumber 1), (''FAIR'', PTable LONGEVITY_PENALTIES_FAIR),
      (''POOR'', PTable LONGEVITY_PENALTIES_POOR)]"

text \<open>
  \<open>LONGEVITY_PENALTIES[label] || fallback\<close>: a missing entry and the number 0 are falsy and
  give the fallback number; a non-zero number and any object are truthy and are kept.
\<close>

fun penalty_or :: "penalty option \<Rightarrow> real \<Rightarrow> penalty" where
  "penalty_or None fallback = PNumber fallback"
| "penalty_or (Some (PNumber n)) fallback = (if n \<noteq> 0 then PNumber n else PNumber fallback)"
| "penalty_or (Some (PTable t)) fallback = PTable t"

text \<open>
  One step \<open>(a, b) => a * b\<close> of the \<open>reduce\<close>: the accumulator is a number, the element
  a penalty. A plain object converts to \<open>NaN\<close>, so the product with a table is \<open>NaN\<close>.
\<close>

fun times_penalty :: "jsnum \<Rightarrow> penalty \<Rightarrow> jsnum" where
  "times_penalty a (PNumber n) = js_mul a (Fin n)"
| "times_penalty a (PTable t) = NaN"

text \<open>The component summary \<open>{ score, health }\<close>; its two-decimal \<open>score\<close> is left out.\<close>

record component_summary =
  health :: string

definition Object_values :: "'a per_component \<Rightarrow> 'a list" where
  "Object_values c = [cpu c, ram c, storage c, battery c]"

definition estimateLongevityYears :: "jsnum \<Rightarrow> component_summary per_component \<Rightarrow> jsnum" where
  "estimateLongevityYears tscore components =
     (let baseYears = js_mul (js_div (clamp tscore (Fin 0) (Fin 100)) 100) (Fin 6);
          penalties =
            [penalty_or (map_of LONGEVITY_PENALTIES (health (battery components)))
               (battery LONGEVITY_PENALTIES_POOR),
             penalty_or (map_of LONGEVITY_PENALTIES (health (cpu components)))
               (cpu LONGEVITY_PENALTIES_POOR),
             penalty_or (map_of LONGEVITY_PENALTIES (health (storage components)))
               (storage LONGEVITY_PENALTIES_POOR),
             penalty_or (map_of LONGEVITY_PENALTIES (health (ram components)))
               (ram LONGEVITY_PENALTIES_POOR)];
          adjusted = Math_max (Fin 0) (js_mul baseYears (foldl times_penalty (Fin 1) penalties))
      in js_div (Math_round (js_mul adjusted (Fin 10))) 10)"

text \<open>
  \<open>estimateLongevityYears\<close> as written in \<open>backend/rules/healthRules.js\<close>, with its penalties
  as inline conditionals: only the battery is penalised under \<open>FAIR\<close>, and the floor at 0 is
  applied after the rounding.
\<close>

definition estimateLongevityYears_inline ::
    "jsnum \<Rightarrow> component_summary per_component \<Rightarrow> jsnum" where
  "estimateLongevityYears_inline tscore components =
     (let baseYears = js_mul (js_div (clamp tscore (Fin 0) (Fin 100)) 100) (Fin 6);
          batteryHealth = component_summary.health (battery components);
          batteryPenalty =
            (if batteryHealth = ''POOR'' then 6 / 10
             else if batteryHealth = ''FAIR'' then 85 / 100 else 1);
          cpuPenalty =
            (if component_summary.health (cpu components) = ''POOR'' then 7 / 10 else 1);
          storagePenalty =
            (if component_summary.health (storage components) = ''POOR'' then 8 / 10 else 1);
          ramPenalty =
            (if component_summary.health (ram components) = ''POOR'' then 85 / 100 else 1);
          adjusted =
            js_mul (js_mul (js_mul (js_mul baseYears (Fin batteryPenalty)) (Fin cpuPenalty))
                      (Fin storagePenalty)) (Fin ramPenalty)
      in Math_max (Fin 0) (js_div (Math_round (js_mul adjusted (Fin 10))) 10))"

definition estimateSustainability :: "jsnum \<Rightarrow> string" where
  "estimateSustainability tscore =
     (if js_ge tscore (Fin 80) then ''HIGH''
      else if js_ge tscore (Fin 55) then ''MEDIUM'' else ''LOW'')"

definition isReusable :: "component_summary per_component \<Rightarrow> jsnum \<Rightarrow> bool" where
  "isReusable components tscore =
     (js_ge tscore (Fin 60) \<and> \<not> list_ex (\<lambda>c. health c = ''POOR'') (Object_values components))"

record longevity =
  yearsRemaining :: jsnum
  sustainability :: string
  reusable :: bool

record legacy_report =
  totalScore :: jsnum
  health :: string
  components :: "component_summary per_component"
  longevity :: longevity

text \<open>
  The legacy \<open>evaluateDevice\<close> of the rules module, under the name \<open>scoreDevice\<close> that the
  dispatcher binds it to. Its \<open>componentBreakdowns\<close> and \<open>reusabilitySummary\<close> are
  presentation views of the inputs, scores and health labels; they compare and format
  numbers and strings only, cannot throw, and are left out.
\<close>

definition scoreDevice :: "jsnum per_component \<Rightarrow> legacy_report" where
  "scoreDevice input =
     (let rawScores =
            \<lparr>cpu = scoreCPU (cpu input), ram = scoreRAM (ram input),
             storage = scoreStorage (storage input), battery = scoreBattery (battery input)\<rparr>;
          healths =
            \<lparr>cpu = getComponentHealth (cpu rawScores) (cpu MAX_SCORES),
             ram = getComponentHealth (ram rawScores) (ram MAX_SCORES),
             storage = getComponentHealth (storage rawScores) (storage MAX_SCORES),
             battery = getComponentHealth (battery rawScores) (battery MAX_SCORES)\<rparr>;
          comps =
            \<lparr>cpu = \<lparr>component_summary.health = cpu healths\<rparr>,
             ram = \<lparr>component_summary.health = ram healths\<rparr>,
             storage = \<lparr>component_summary.health = storage healths\<rparr>,
             battery = \<lparr>component_summary.health = battery healths\<rparr>\<rparr>;
          tscore =
            js_add (js_add (js_add
              (js_mul (js_mul (js_div (cpu rawScores) (cpu MAX_SCORES)) (Fin (cpu WEIGHTS))) (Fin 100))
              (js_mul (js_mul (js_div (ram rawScores) (ram MAX_SCORES)) (Fin (ram WEIGHTS))) (Fin 100)))
              (js_mul (js_mul (js_div (storage rawScores) (storage MAX_SCORES))
                                (Fin (storage WEIGHTS))) (Fin 100)))
              (js_mul (js_mul (js_div (battery rawScores) (battery MAX_SCORES))
                                (Fin (battery WEIGHTS))) (Fin 100))
      in \<lparr>totalScore = Math_round tscore,
          health = getOverallHealth tscore,
          components = comps,
          longevity =
            \<lparr>yearsRemaining = estimateLongevityYears tscore comps,
             sustainability = estimateSustainability tscore,
             reusable = isReusable comps tscore\<rparr>\<rparr>)"

section \<open>Dispatcher\<close>

text \<open>
  The argument of the dispatcher is a data payload: a primitive value, a plain object
  (\<open>Object\<close>: its prototype is \<open>Object.prototype\<close>) or an object without a prototype
  (\<open>NullProtoObject\<close>, as \<open>Object.create(null)\<close> makes), the objects holding data
  properties with primitive values. Objects with other prototypes, accessor properties,
  and properties holding functions, objects or arrays are outside this payload model.

  The faults the engine raises on data payloads are the \<open>TypeError\<close>s of the method call
  \<open>input.hasOwnProperty(key)\<close>. On \<open>null\<close> (and \<open>undefined\<close>) there is no property to read.
  On an object the property \<open>hasOwnProperty\<close> is looked up on the object first and then on
  its prototype: an own property of that name holds a value that cannot be called, and an
  object without a prototype that owns no such property has no method to call at all;
  only a plain object that does not own the name reaches the built-in method, which tests
  the own keys.
\<close>

datatype js_error = TypeError

datatype payload = Primitive jsval | Object jsobject | NullProtoObject jsobject

fun hasOwnProperty :: "payload \<Rightarrow> string \<Rightarrow> js_error + bool" where
  "hasOwnProperty (Primitive JUndefined) key = Inl TypeError"
| "hasOwnProperty (Primitive JNull) key = Inl TypeError"
| "hasOwnProperty (Primitive v) key = Inr False"
| "hasOwnProperty (Object obj) key =
     (if ''hasOwnProperty'' \<in> fst ` set obj then Inl TypeError
      else Inr (key \<in> fst ` set obj))"
| "hasOwnProperty (NullProtoObject obj) key = Inl TypeError"

text \<open>\<open>keys.some(f)\<close>: stops at the first key for which \<open>f\<close> is true or throws.\<close>

fun some_key :: "(string \<Rightarrow> 'e + bool) \<Rightarrow> string list \<Rightarrow> 'e + bool" where
  "some_key f [] = Inr False"
| "some_key f (key # keys) =
     (case f key of
        Inl e \<Rightarrow> Inl e
      | Inr found \<Rightarrow> (if found then Inr True else some_key f keys))"

definition standardizedKeys :: "string list" where
  "standardizedKeys =
     [''storage_smart_status'', ''ram_test_errors'', ''cpu_stress_stable'',
      ''gpu_stress_stable'', ''performance_percentage'', ''ssd_wear_percentage'',
      ''battery_health_percent'', ''physical_damage'', ''idle_temperature_celsius'']"

definition isStandardizedInput :: "payload \<Rightarrow> js_error + bool" where
  "isStandardizedInput input = some_key (hasOwnProperty input) standardizedKeys"

text \<open>
  The properties that reads of \<open>input.name\<close> see, once \<open>isStandardizedInput\<close> has returned
  (so the input is neither \<open>null\<close> nor \<open>undefined\<close>): a primitive has none of the names read.
\<close>

fun ownProperties :: "payload \<Rightarrow> jsobject" where
  "ownProperties (Object obj) = obj"
| "ownProperties (NullProtoObject obj) = obj"
| "ownProperties (Primitive v) = []"

record overall =
  health :: string
  total_score :: jsnum
  reusable :: bool
  classification :: "string option"
  longevity_years :: "jsnum option"
  sustainability :: "string option"

record envelope =
  error :: "js_error option"
  evaluationModel :: string
  standardized :: "standardized_result option"
  legacy :: "legacy_report option"
  overall :: overall

text \<open>
  The three object literals the dispatcher returns, and the argument object it passes to
  the legacy scorer, each as a function of the values it is built from.
\<close>

definition standardizedEnvelope :: "standardized_result \<Rightarrow> envelope" where
  "standardizedEnvelope result =
     \<lparr>error = None,
      evaluationModel = ''STANDARDIZED_HARDWARE_REUSABILITY'',
      standardized = Some result,
      legacy = None,
      overall =
        \<lparr>health =
           (if js_ge (standardized_result.totalScore result) (Fin 80) then ''GOOD''
            else if js_ge (standardized_result.totalScore result) (Fin 55) then ''FAIR''
            else ''POOR''),
         total_score = standardized_result.totalScore result,
         reusable = js_ge (standardized_result.totalScore result) (Fin 50),
         classification = Some (level (standardized_result.classification result)),
         longevity_years = None,
         sustainability = None\<rparr>\<rparr>"

definition legacyArguments :: "(string \<Rightarrow> jsnum) \<Rightarrow> jsobject \<Rightarrow> jsnum per_component" where
  "legacyArguments s2n input =
     \<lparr>cpu = ToNumber s2n (nullish (nullish (getProp input ''cpu_usage'')
                                  (getProp input ''cpu'')) (JNum (Fin 0))),
      ram = ToNumber s2n (nullish (nullish (getProp input ''ram_gb'')
                                  (getProp input ''ram'')) (JNum (Fin 0))),
      storage = ToNumber s2n (nullish (nullish (getProp input ''storage_health'')
                                  (getProp input ''storage'')) (JNum (Fin 0))),
      battery = ToNumber s2n (nullish (nullish (getProp input ''battery_health'')
                                  (getProp input ''battery'')) (JNum (Fin 0)))\<rparr>"

text \<open>
  The \<open>?? 0\<close>, \<open>?? "UNKNOWN"\<close> and \<open>?? false\<close> guards on \<open>report.longevity\<close> never fire: the
  report always has a \<open>longevity\<close> object whose three fields are a number, a string and a
  Boolean.
\<close>

definition legacyEnvelope :: "legacy_report \<Rightarrow> envelope" where
  "legacyEnvelope report =
     \<lparr>error = None,
      evaluationModel = ''LEGACY_COMPONENT_HEALTH'',
      standardized = None,
      legacy = Some report,
      overall =
        \<lparr>health = legacy_report.health report,
         total_score = legacy_report.totalScore report,
         reusable = longevity.reusable (longevity report),
         classification = None,
         longevity_years = Some (yearsRemaining (longevity report)),
         sustainability = Some (longevity.sustainability (longevity report))\<rparr>\<rparr>"

text \<open>
  The object literal of the \<open>catch\<close> block, given what the read of \<open>error.message\<close>
  yielded: the thrown error's message (the error itself stands for it), or \<open>undefined\<close>
  (\<open>None\<close>) when the thrown value has none.
\<close>

definition errorEnvelope :: "js_error option \<Rightarrow> envelope" where
  "errorEnvelope message =
     \<lparr>error = message,
      evaluationModel = ''ERROR'',
      standardized = None,
      legacy = None,
      overall =
        \<lparr>health = ''UNKNOWN'', total_score = Fin 0, reusable = False,
         classification = None, longevity_years = None, sustainability = None\<rparr>\<rparr>"

text \<open>The body of the \<open>try\<close> block; \<open>Inl\<close> is a thrown error.\<close>

definition evaluateDevice_try :: "(string \<Rightarrow> jsnum) \<Rightarrow> payload \<Rightarrow> js_error + envelope" where
  "evaluateDevice_try s2n input =
     (case isStandardizedInput input of
        Inl e \<Rightarrow> Inl e
      | Inr is_std \<Rightarrow>
          (if is_std then
             (let result = evaluateDeviceStandardized s2n (ownProperties input)
              in Inr (standardizedEnvelope result))
           else
             (let report = scoreDevice (legacyArguments s2n (ownProperties input))
              in Inr (legacyEnvelope report))))"

text \<open>
  The dispatcher on data payloads: the default parameter \<open>input = {}\<close> replaces
  \<open>undefined\<close>, and the \<open>catch\<close> block turns the thrown \<open>TypeError\<close>, whose message it can
  read, into the error envelope.
\<close>

definition defaultInput :: "payload \<Rightarrow> payload" where
  "defaultInput arg = (if arg = Primitive JUndefined then Object [] else arg)"

definition evaluateDevice :: "(string \<Rightarrow> jsnum) \<Rightarrow> payload \<Rightarrow> envelope" where
  "evaluateDevice s2n arg =
     (case evaluateDevice_try s2n (defaultInput arg) of
        Inr result \<Rightarrow> result
      | Inl e \<Rightarrow> errorEnvelope (Some e))"

text \<open>
  The \<open>try\<close> / \<open>catch\<close> statement itself, for whatever the \<open>try\<close> block does. A step of the
  block throws either an error object the engine raises or, where the argument supplies
  code of its own (a \<open>valueOf\<close>, \<open>toString\<close> or \<open>hasOwnProperty\<close> method), whatever value that
  code throws; such values are modelled when they are primitives.

  The \<open>catch\<close> block reads \<open>error.message\<close> to log it and to fill the envelope. On a thrown
  \<open>null\<close> or \<open>undefined\<close> that read throws a \<open>TypeError\<close>, and nothing encloses the \<open>catch\<close>
  block, so that error leaves the dispatcher. On any other primitive the read yields
  \<open>undefined\<close>. The logging by \<open>console.error\<close> has no result and is not modelled.
\<close>

datatype thrown = Raised js_error | Thrown jsval

fun readMessage :: "thrown \<Rightarrow> js_error + js_error option" where
  "readMessage (Raised e) = Inr (Some e)"
| "readMessage (Thrown JUndefined) = Inl TypeError"
| "readMessage (Thrown JNull) = Inl TypeError"
| "readMessage (Thrown v) = Inr None"

definition catchBlock :: "thrown \<Rightarrow> js_error + envelope" where
  "catchBlock err =
     (case readMessage err of
        Inl e \<Rightarrow> Inl e
      | Inr message \<Rightarrow> Inr (errorEnvelope message))"

definition tryCatch :: "thrown + envelope \<Rightarrow> js_error + envelope" where
  "tryCatch body =
     (case body of
        Inr result \<Rightarrow> Inr result
      | Inl err \<Rightarrow> catchBlock err)"

text \<open>
  A call of the dispatcher, which returns an envelope or throws, on a wider class of
  arguments: a data payload, or a plain object that owns a \<open>hasOwnProperty\<close> method of its
  own beside primitive-valued data properties. Such a method is given by what it does
  when the detection calls it with a key: it throws a value, or returns one, of which
  \<open>some\<close> uses the truthiness only.
\<close>

datatype argument = Data payload | MethodObject "string \<Rightarrow> thrown + bool" jsobject

fun evaluateDevice_call :: "(string \<Rightarrow> jsnum) \<Rightarrow> argument \<Rightarrow> js_error + envelope" where
  "evaluateDevice_call s2n (Data arg) =
     tryCatch (case evaluateDevice_try s2n (defaultInput arg) of
                 Inl e \<Rightarrow> Inl (Raised e)
               | Inr result \<Rightarrow> Inr result)"
| "evaluateDevice_call s2n (MethodObject own_hasOwnProperty obj) =
     tryCatch (case some_key own_hasOwnProperty standardizedKeys of
                 Inl err \<Rightarrow> Inl err
               | Inr is_std \<Rightarrow>
                   (if is_std then
                      Inr (standardizedEnvelope (evaluateDeviceStandardized s2n obj))
                    else Inr (legacyEnvelope (scoreDevice (legacyArguments s2n obj)))))"

section \<open>Vocabulary of the properties\<close>

text \<open>The order of the tier names: NOT_RECOMMENDED < LIMITED < REUSABLE < HIGH_GRADE.\<close>

definition tierRank :: "string \<Rightarrow> nat" where
  "tierRank t =
     (if t = ''HIGH_GRADE'' then 3 else if t = ''REUSABLE'' then 2
      else if t = ''LIMITED'' then 1 else 0)"

text \<open>
  \<open>const isValidNumber = (value) => typeof value === 'number' && isFinite(value)\<close>, and
  the payloads all of whose legacy metric fields, where present, are such numbers.
\<close>

fun isValidNumber :: "jsval \<Rightarrow> bool" where
  "isValidNumber (JNum (Fin a)) = True"
| "isValidNumber v = False"

definition legacyNumericKeys :: "string list" where
  "legacyNumericKeys =
     [''cpu_usage'', ''cpu'', ''ram_gb'', ''ram'', ''storage_health'', ''storage'',
      ''battery_health'', ''battery'']"

definition finiteNumericFields :: "jsobject \<Rightarrow> bool" where
  "finiteNumericFields obj =
     list_all (\<lambda>(k, v). k \<in> set legacyNumericKeys \<longrightarrow> isValidNumber v) obj"

section \<open>Sample payloads\<close>

text \<open>
  The payloads of the repository's test script, and a reading of strings under which no
  string is a numeric literal (the sample payloads hold no numeric strings).
\<close>

definition noNumericStrings :: "string \<Rightarrow> jsnum" where
  "noNumericStrings s = NaN"

text \<open>The method \<open>hasOwnProperty() { throw null }\<close>.\<close>

definition throwsNull :: "string \<Rightarrow> thrown + bool" where
  "throwsNull key = Inl (Thrown JNull)"

definition legacyInput :: jsobject where
  "legacyInput =
     [(''cpu'', JNum (Fin 65)), (''ram'', JNum (Fin 8)),
      (''storage'', JNum (Fin 75)), (''battery'', JNum (Fin 80))]"

definition standardizedHighGrade :: jsobject where
  "standardizedHighGrade =
     [(''storage_smart_status'', JStr ''GOOD''), (''ram_test_errors'', JNum (Fin 0)),
      (''cpu_stress_stable'', JBool True), (''cpu_throttling'', JBool False),
      (''gpu_stress_stable'', JBool True), (''gpu_artifacts'', JBool False),
      (''performance_percentage'', JNum (Fin 98)), (''ssd_wear_percentage'', JNum (Fin 15)),
      (''battery_health_percent'', JNum (Fin 92)), (''physical_damage'', JBool False),
      (''port_integrity'', JBool True), (''idle_temperature_celsius'', JNum (Fin 35)),
      (''load_temperature_celsius'', JNum (Fin 72))]"

definition standardizedNotRecommended :: jsobject where
  "standardizedNotRecommended =
     [(''storage_smart_status'', JStr ''FAILED''), (''ram_test_errors'', JNum (Fin 5)),
      (''cpu_stress_stable'', JBool False), (''cpu_throttling'', JBool True),
      (''gpu_stress_stable'', JBool False), (''gpu_artifacts'', JBool True),
      (''performance_percentage'', JNum (Fin 35)), (''ssd_wear_percentage'', JNum (Fin 85)),
      (''battery_health_percent'', JNum (Fin 25)), (''physical_damage'', JBool True),
      (''port_integrity'', JBool False), (''idle_temperature_celsius'', JNum (Fin 65)),
      (''load_temperature_celsius'', JNum (Fin 98))]"

section \<open>Basic facts\<close>

lemmas tables =
  PERFORMANCE_SCORING_def SSD_WEAR_SCORING_def BATTERY_HEALTH_SCORING_def
  FUNCTIONAL_INTEGRITY_def PERFORMANCE_RETENTION_def REMAINING_LIFE_def PHYSICAL_THERMAL_def
  THERMAL_LIMITS_normal_def THERMAL_LIMITS_critical_def

lemmas entries = HIGH_GRADE_def REUSABLE_def LIMITED_def NOT_RECOMMENDED_def

lemma scoreLookup_Fin: "\<exists>r. scoreLookup v rules = Fin r"
  by (induction rules) auto

lemma clamp_Fin: "clamp (Fin x) (Fin lo) (Fin hi) = Fin (max lo (min hi x))"
  by (simp add: clamp_def)

lemma js_mul_NaN_right: "js_mul a NaN = NaN"
  by (cases a) simp_all

lemma getProp_Cons: "getProp ((k, v) # obj) k' = (if k = k' then v else getProp obj k')"
  by (simp add: getProp_def)

lemma normalize_notRecommended:
  "normalizeInput s2n standardizedNotRecommended =
     \<lparr>storage_smart_status = JStr ''FAILED'', ram_test_errors = Fin 5,
      cpu_stress_stable = JBool False, cpu_throttling = JBool True,
      gpu_stress_stable = JBool False, gpu_artifacts = JBool True,
      performance_percentage = Fin 35, ssd_wear_percentage = Fin 85,
      battery_health_percent = Fin 25, physical_damage = True, port_integrity = False,
      idle_temperature_celsius = Fin 65, load_temperature_celsius = Fin 98\<rparr>"
  by (simp add: normalizeInput_def standardizedNotRecommended_def getProp_def js_or_def clamp_def)

lemma normalize_highGrade:
  "normalizeInput s2n standardizedHighGrade =
     \<lparr>storage_smart_status = JStr ''GOOD'', ram_test_errors = Fin 0,
      cpu_stress_stable = JBool True, cpu_throttling = JBool False,
      gpu_stress_stable = JBool True, gpu_artifacts = JBool False,
      performance_percentage = Fin 98, ssd_wear_percentage = Fin 15,
      battery_health_percent = Fin 92, physical_damage = False, port_integrity = True,
      idle_temperature_celsius = Fin 35, load_temperature_celsius = Fin 72\<rparr>"
  by (simp add: normalizeInput_def standardizedHighGrade_def getProp_def js_or_def clamp_def)

lemma total_notRecommended:
  "standardized_result.totalScore (evaluateDeviceStandardized s2n standardizedNotRecommended)
     = Fin 16"
  by (simp add: evaluateDeviceStandardized_def Let_def normalize_notRecommended
      scoreFunctionalIntegrity_def scorePerformanceRetention_def scoreRemainingLife_def
      scorePhysicalThermal_def clamp_def tables)

lemma total_highGrade:
  "standardized_result.totalScore (evaluateDeviceStandardized s2n standardizedHighGrade)
     = Fin 100"
  by (simp add: evaluateDeviceStandardized_def Let_def normalize_highGrade
      scoreFunctionalIntegrity_def scorePerformanceRetention_def scoreRemainingLife_def
      scorePhysicalThermal_def clamp_def tables)

section \<open>Remaining life: the SSD wear lookup\<close>

text \<open>
  The SSD table is scanned in its written order, which is ascending: its first rule
  (threshold 20) is reached by every value that would reach a later one, so the rules
  scoring 7 and 4 are never selected and the sub-score is 10 or 0.
\<close>

lemma ssd_lookup_two_valued:
  "scoreLookup v SSD_WEAR_SCORING = Fin 10 \<or> scoreLookup v SSD_WEAR_SCORING = Fin 0"
  by (cases v) (simp_all add: tables)

lemma ssd_score_by_wear:
  "ssd_score (details (scoreRemainingLife (diag\<lparr>ssd_wear_percentage := Fin w\<rparr>)))
     = (if w \<le> 80 then Fin 10 else Fin 0)"
  by (simp add: scoreRemainingLife_def Let_def tables)

lemma battery_score_by_health:
  "battery_score (details (scoreRemainingLife (diag\<lparr>battery_health_percent := Fin h\<rparr>)))
     = (if 85 \<le> h then Fin 10 else if 70 \<le> h then Fin 7 else if 60 \<le> h then Fin 4 else Fin 0)"
  by (simp add: scoreRemainingLife_def Let_def tables)

text \<open>
  C1. The claim gives an SSD wear of 50 percent the sub-score 4 (and a wear of 30 percent
  the sub-score 7). The scorer, on the payload whose only field is that wear, returns the
  sub-score 10 in both cases.
\<close>

theorem ssd_wear_50_scores_10:
  "ssd_score (details (scoreRemainingLife (normalizeInput noNumericStrings
      [(''ssd_wear_percentage'', JNum (Fin 50))]))) = Fin 10
   \<and> ssd_score (details (scoreRemainingLife (normalizeInput noNumericStrings
      [(''ssd_wear_percentage'', JNum (Fin 30))]))) = Fin 10"
  by (simp add: normalizeInput_def getProp_def noNumericStrings_def js_or_def clamp_def
      scoreRemainingLife_def Let_def tables)

section \<open>Performance retention\<close>

text \<open>
  C7. A performance percentage of exactly 0 scores 0 and is reported as missing data; a
  percentage of 1, and every percentage strictly between 0 and 80, scores 5 and is
  reported as evaluated; the two scores differ.
\<close>

theorem performance_zero_is_no_data:
  "score (scorePerformanceRetention (diag\<lparr>performance_percentage := Fin 0\<rparr>)) = Fin 0
   \<and> benchmarkStatus (details (scorePerformanceRetention
        (diag\<lparr>performance_percentage := Fin 0\<rparr>))) = ''NO_DATA''
   \<and> score (scorePerformanceRetention (diag\<lparr>performance_percentage := Fin 1\<rparr>)) = Fin 5
   \<and> (0 < p \<and> p < 80 \<longrightarrow>
        score (scorePerformanceRetention (diag\<lparr>performance_percentage := Fin p\<rparr>)) = Fin 5
        \<and> benchmarkStatus (details (scorePerformanceRetention
             (diag\<lparr>performance_percentage := Fin p\<rparr>))) = ''EVALUATED'')
   \<and> score (scorePerformanceRetention (diag\<lparr>performance_percentage := Fin 0\<rparr>))
       \<noteq> score (scorePerformanceRetention (diag\<lparr>performance_percentage := Fin 1\<rparr>))"
  by (simp add: scorePerformanceRetention_def Let_def clamp_def tables)

text \<open>Witness of C7: the not-recommended sample payload, whose percentage is 35.\<close>

theorem performance_zero_is_no_data_witness:
  "(0::real) < 35 \<and> (35::real) < 80
   \<and> performance_percentage (normalizeInput noNumericStrings standardizedNotRecommended) = Fin 35
   \<and> score (scorePerformanceRetention
        (normalizeInput noNumericStrings standardizedNotRecommended)) = Fin 5"
  using performance_zero_is_no_data
    [of "normalizeInput noNumericStrings standardizedNotRecommended" 35]
  by (simp add: normalize_notRecommended)

section \<open>Physical and thermal condition\<close>

text \<open>
  C8. When the idle temperature exceeds 60 or the load temperature exceeds 95, the thermal
  status is CRITICAL and the category score is the score after the damage and port
  deductions minus exactly 4: it is 4 below the score the same diagnostic gets with
  unremarkable temperatures, so the concerning deduction of 2 is not applied as well.
\<close>

theorem thermal_critical_short_circuit:
  assumes "js_gt (idle_temperature_celsius diag) (Fin 60)
           \<or> js_gt (load_temperature_celsius diag) (Fin 95)"
  shows "thermalStatus (details (scorePhysicalThermal diag)) = ''CRITICAL''
         \<and> score (scorePhysicalThermal diag)
             = Fin (10 - (if physical_damage diag then 4 else 0)
                       - (if port_integrity diag then 0 else 2) - 4)
         \<and> score (scorePhysicalThermal diag)
             = js_sub (score (scorePhysicalThermal
                 (diag\<lparr>idle_temperature_celsius := Fin 0,
                        load_temperature_celsius := Fin 0\<rparr>))) (Fin 4)"
  using assms by (auto simp add: scorePhysicalThermal_def clamp_def tables Let_def)

text \<open>
  Witness of C8: idle 65 and load 98, with damage and a broken port: 10 - 4 - 2 - 4 = 0.
\<close>

theorem thermal_critical_short_circuit_witness:
  "(js_gt (idle_temperature_celsius
       (normalizeInput noNumericStrings standardizedNotRecommended)) (Fin 60)
    \<or> js_gt (load_temperature_celsius
       (normalizeInput noNumericStrings standardizedNotRecommended)) (Fin 95))
   \<and> thermalStatus (details (scorePhysicalThermal
        (normalizeInput noNumericStrings standardizedNotRecommended))) = ''CRITICAL''
   \<and> score (scorePhysicalThermal
        (normalizeInput noNumericStrings standardizedNotRecommended)) = Fin 0"
  using thermal_critical_short_circuit
    [of "normalizeInput noNumericStrings standardizedNotRecommended"]
  by (simp add: normalize_notRecommended)

section \<open>Classification\<close>

lemma sorted_classifications:
  "sort_key (\<lambda>c. - min' c) (map snd REUSABILITY_CLASSIFICATION)
     = [HIGH_GRADE, REUSABLE, LIMITED, NOT_RECOMMENDED]"
  by (simp add: REUSABILITY_CLASSIFICATION_def entries)

lemma classifyReusability_chain:
  "classifyReusability s =
     (if js_ge s (Fin 85) then HIGH_GRADE else if js_ge s (Fin 70) then REUSABLE
      else if js_ge s (Fin 50) then LIMITED else NOT_RECOMMENDED)"
  by (simp add: classifyReusability_def sorted_classifications) (simp add: entries)

lemma classification_of_result:
  "standardized_result.classification (evaluateDeviceStandardized s2n obj) =
     (let t = standardized_result.totalScore (evaluateDeviceStandardized s2n obj);
          c = classifyReusability t
      in \<lparr>level = label c, description = classification_entry.description c,
          minScore = min' c, tier = tierTag t\<rparr>)"
  by (simp add: evaluateDeviceStandardized_def Let_def)

lemma tierTag_names_entry:
  "map_of REUSABILITY_CLASSIFICATION (tierTag s) = Some (classifyReusability s)"
  by (simp add: classifyReusability_chain tierTag_def REUSABILITY_CLASSIFICATION_def)

lemma tierTag_mono: "js_ge s2 s1 \<Longrightarrow> tierRank (tierTag s1) \<le> tierRank (tierTag s2)"
  by (cases s1; cases s2) (auto simp: tierTag_def tierRank_def)

lemma classifyReusability_mono:
  "js_ge s2 s1 \<Longrightarrow> min' (classifyReusability s1) \<le> min' (classifyReusability s2)"
  by (cases s1; cases s2) (auto simp: classifyReusability_chain entries)

text \<open>
  C6. Tier classification is monotone. For any two scores with \<open>s1 \<le> s2\<close> the tier tag of
  \<open>s2\<close> ranks at least as high as that of \<open>s1\<close>, and the entry \<open>classifyReusability\<close> returns
  for \<open>s2\<close> has at least the minimum of the entry for \<open>s1\<close>; the same holds between the
  results of any two standardized evaluations, compared by their total scores.
\<close>

theorem tier_monotone:
  "(js_ge s2 s1 \<longrightarrow>
      tierRank (tierTag s1) \<le> tierRank (tierTag s2)
      \<and> min' (classifyReusability s1) \<le> min' (classifyReusability s2))
   \<and> (js_ge (standardized_result.totalScore (evaluateDeviceStandardized s2n b))
             (standardized_result.totalScore (evaluateDeviceStandardized s2n a)) \<longrightarrow>
        tierRank (tier (standardized_result.classification (evaluateDeviceStandardized s2n a)))
          \<le> tierRank (tier (standardized_result.classification
                (evaluateDeviceStandardized s2n b)))
        \<and> minScore (standardized_result.classification (evaluateDeviceStandardized s2n a))
          \<le> minScore (standardized_result.classification (evaluateDeviceStandardized s2n b)))"
  by (simp add: classification_of_result Let_def tierTag_mono classifyReusability_mono)

text \<open>
  Witness of C6: the scores 69 and 70 fall on either side of the LIMITED / REUSABLE
  boundary, and the not-recommended sample (16 points) ranks below the high-grade one (100).
\<close>

theorem tier_monotone_witness:
  "js_ge (Fin 70) (Fin 69)
   \<and> tierTag (Fin 69) = ''LIMITED'' \<and> tierTag (Fin 70) = ''REUSABLE''
   \<and> tierRank (tierTag (Fin 69)) \<le> tierRank (tierTag (Fin 70))
   \<and> js_ge (standardized_result.totalScore
              (evaluateDeviceStandardized noNumericStrings standardizedHighGrade))
            (standardized_result.totalScore
              (evaluateDeviceStandardized noNumericStrings standardizedNotRecommended))
   \<and> tierRank (tier (standardized_result.classification
         (evaluateDeviceStandardized noNumericStrings standardizedNotRecommended)))
       \<le> tierRank (tier (standardized_result.classification
         (evaluateDeviceStandardized noNumericStrings standardizedHighGrade)))"
  using tier_monotone [of "Fin 70" "Fin 69" noNumericStrings standardizedHighGrade
      standardizedNotRecommended]
  by (simp add: total_highGrade total_notRecommended tierTag_def)

text \<open>
  C10. The two classification views agree. For every total score the tier tag of the
  inline chain is the key under which the table holds the entry that
  \<open>classifyReusability\<close> returns; hence in every standardized result the entry named by
  \<open>classification.tier\<close> has exactly the result's \<open>minScore\<close>, \<open>level\<close> and \<open>description\<close>,
  and \<open>minScore\<close> is 85, 70, 50 or 0 precisely when the tier is HIGH_GRADE, REUSABLE,
  LIMITED or NOT_RECOMMENDED.
\<close>

theorem tier_tag_names_classification:
  "map_of REUSABILITY_CLASSIFICATION (tierTag s) = Some (classifyReusability s)
   \<and> map_of REUSABILITY_CLASSIFICATION
        (tier (standardized_result.classification (evaluateDeviceStandardized s2n obj)))
      = Some \<lparr>min' = minScore (standardized_result.classification
                        (evaluateDeviceStandardized s2n obj)),
              label = level (standardized_result.classification
                        (evaluateDeviceStandardized s2n obj)),
              description = classification.description (standardized_result.classification
                        (evaluateDeviceStandardized s2n obj))\<rparr>
   \<and> (tier (standardized_result.classification (evaluateDeviceStandardized s2n obj))
          = ''HIGH_GRADE'')
      = (minScore (standardized_result.classification (evaluateDeviceStandardized s2n obj))
          = 85)
   \<and> (tier (standardized_result.classification (evaluateDeviceStandardized s2n obj))
          = ''REUSABLE'')
      = (minScore (standardized_result.classification (evaluateDeviceStandardized s2n obj))
          = 70)
   \<and> (tier (standardized_result.classification (evaluateDeviceStandardized s2n obj))
          = ''LIMITED'')
      = (minScore (standardized_result.classification (evaluateDeviceStandardized s2n obj))
          = 50)
   \<and> (tier (standardized_result.classification (evaluateDeviceStandardized s2n obj))
          = ''NOT_RECOMMENDED'')
      = (minScore (standardized_result.classification (evaluateDeviceStandardized s2n obj))
          = 0)"
proof -
  have a: "map_of REUSABILITY_CLASSIFICATION (tierTag s) = Some (classifyReusability s)"
    by (rule tierTag_names_entry)
  have b: "map_of REUSABILITY_CLASSIFICATION
        (tier (standardized_result.classification (evaluateDeviceStandardized s2n obj)))
      = Some \<lparr>min' = minScore (standardized_result.classification
                        (evaluateDeviceStandardized s2n obj)),
              label = level (standardized_result.classification
                        (evaluateDeviceStandardized s2n obj)),
              description = classification.description (standardized_result.classification
                        (evaluateDeviceStandardized s2n obj))\<rparr>"
    by (simp add: classification_of_result Let_def tierTag_names_entry)
  have c: "(tier (standardized_result.classification (evaluateDeviceStandardized s2n obj))
          = ''HIGH_GRADE'')
      = (minScore (standardized_result.classification (evaluateDeviceStandardized s2n obj))
          = 85)"
    by (simp add: classification_of_result Let_def classifyReusability_chain tierTag_def entries)
  have d: "(tier (standardized_result.classification (evaluateDeviceStandardized s2n obj))
          = ''REUSABLE'')
      = (minScore (standardized_result.classification (evaluateDeviceStandardized s2n obj))
          = 70)"
    by (simp add: classification_of_result Let_def classifyReusability_chain tierTag_def entries)
  have e: "(tier (standardized_result.classification (evaluateDeviceStandardized s2n obj))
          = ''LIMITED'')
      = (minScore (standardized_result.classification (evaluateDeviceStandardized s2n obj))
          = 50)"
    by (simp add: classification_of_result Let_def classifyReusability_chain tierTag_def entries)
  have f: "(tier (standardized_result.classification (evaluateDeviceStandardized s2n obj))
          = ''NOT_RECOMMENDED'')
      = (minScore (standardized_result.classification (evaluateDeviceStandardized s2n obj))
          = 0)"
    by (simp add: classification_of_result Let_def classifyReusability_chain tierTag_def entries)
  from a b c d e f show ?thesis by blast
qed

section \<open>Total score bounds\<close>

lemma functional_bounds:
  "\<exists>r. score (scoreFunctionalIntegrity d) = Fin r \<and> 0 \<le> r \<and> r \<le> 40"
  by (simp add: scoreFunctionalIntegrity_def Let_def clamp_Fin FUNCTIONAL_INTEGRITY_def)

lemma performance_bounds:
  "\<exists>r. score (scorePerformanceRetention d) = Fin r \<and> 0 \<le> r \<and> r \<le> 30"
proof -
  obtain x where "scoreLookup (performance_percentage d) PERFORMANCE_SCORING = Fin x"
    using scoreLookup_Fin by blast
  then show ?thesis
    by (simp add: scorePerformanceRetention_def Let_def clamp_Fin PERFORMANCE_RETENTION_def)
qed

lemma remaining_bounds:
  "\<exists>r. score (scoreRemainingLife d) = Fin r \<and> 0 \<le> r \<and> r \<le> 20"
proof -
  obtain x where
    x: "scoreLookup (js_sub (Fin 100) (ssd_wear_percentage d)) SSD_WEAR_SCORING = Fin x"
    using scoreLookup_Fin by blast
  obtain y where y: "scoreLookup (battery_health_percent d) BATTERY_HEALTH_SCORING = Fin y"
    using scoreLookup_Fin by blast
  from x y show ?thesis
    by (simp add: scoreRemainingLife_def Let_def clamp_Fin REMAINING_LIFE_def)
qed

lemma physical_bounds:
  "\<exists>r. score (scorePhysicalThermal d) = Fin r \<and> 0 \<le> r \<and> r \<le> 10"
  by (simp add: scorePhysicalThermal_def Let_def clamp_Fin PHYSICAL_THERMAL_def)

lemma standardized_total_bounds:
  "\<exists>t. standardized_result.totalScore (evaluateDeviceStandardized s2n obj) = Fin t
       \<and> 0 \<le> t \<and> t \<le> 100"
proof -
  let ?d = "normalizeInput s2n obj"
  obtain a where a: "score (scoreFunctionalIntegrity ?d) = Fin a" "0 \<le> a" "a \<le> 40"
    using functional_bounds by blast
  obtain b where b: "score (scorePerformanceRetention ?d) = Fin b" "0 \<le> b" "b \<le> 30"
    using performance_bounds by blast
  obtain c where c: "score (scoreRemainingLife ?d) = Fin c" "0 \<le> c" "c \<le> 20"
    using remaining_bounds by blast
  obtain e where e: "score (scorePhysicalThermal ?d) = Fin e" "0 \<le> e" "e \<le> 10"
    using physical_bounds by blast
  have "standardized_result.totalScore (evaluateDeviceStandardized s2n obj)
          = Fin (a + b + c + e)"
    using a(1) b(1) c(1) e(1) by (simp add: evaluateDeviceStandardized_def Let_def)
  with a b c e show ?thesis by simp
qed

lemma scoreCPU_Fin: "\<exists>r. scoreCPU (Fin c) = Fin r \<and> 0 \<le> r \<and> r \<le> 30"
  by (simp add: scoreCPU_def clamp_Fin MAX_SCORES_def)

lemma scoreRAM_Fin: "\<exists>r. scoreRAM (Fin c) = Fin r \<and> 0 \<le> r \<and> r \<le> 25"
  by (simp add: scoreRAM_def clamp_Fin MAX_SCORES_def)

lemma scoreStorage_Fin: "\<exists>r. scoreStorage (Fin c) = Fin r \<and> 0 \<le> r \<and> r \<le> 25"
  by (simp add: scoreStorage_def clamp_Fin MAX_SCORES_def)

text \<open>The battery curve: a power of a base in the unit interval stays there.\<close>

lemma scoreBattery_Fin: "\<exists>r. scoreBattery (Fin c) = Fin r \<and> 0 \<le> r \<and> r \<le> 20"
proof -
  let ?n = "max 0 (min 1 (c / 100))"
  have n: "0 \<le> ?n" "?n \<le> 1" by simp_all
  have "?n powr (18 / 10) \<le> 1" using n by (intro powr_le1) simp_all
  moreover have "0 \<le> ?n powr (18 / 10)" by (rule powr_ge_zero)
  moreover have "scoreBattery (Fin c) = Fin (?n powr (18 / 10) * 20)"
    by (simp add: scoreBattery_def clamp_Fin MAX_SCORES_def Let_def)
  ultimately show ?thesis by simp
qed

lemma round_bounds:
  assumes "0 \<le> t" and "t \<le> 100"
  shows "0 \<le> (of_int \<lfloor>t + 1 / 2\<rfloor> :: real) \<and> (of_int \<lfloor>t + 1 / 2\<rfloor> :: real) \<le> 100"
proof -
  have "0 \<le> \<lfloor>t + 1 / 2\<rfloor>" using assms by simp
  moreover have "\<lfloor>t + 1 / 2\<rfloor> \<le> 100" using assms by (simp add: floor_le_iff)
  ultimately show ?thesis by simp
qed

lemma legacy_total_bounds:
  "\<exists>t. legacy_report.totalScore
          (scoreDevice \<lparr>cpu = Fin c, ram = Fin r, storage = Fin s, battery = Fin b\<rparr>) = Fin t
       \<and> 0 \<le> t \<and> t \<le> 100"
proof -
  obtain x1 where x1: "scoreCPU (Fin c) = Fin x1" "0 \<le> x1" "x1 \<le> 30"
    using scoreCPU_Fin by blast
  obtain x2 where x2: "scoreRAM (Fin r) = Fin x2" "0 \<le> x2" "x2 \<le> 25"
    using scoreRAM_Fin by blast
  obtain x3 where x3: "scoreStorage (Fin s) = Fin x3" "0 \<le> x3" "x3 \<le> 25"
    using scoreStorage_Fin by blast
  obtain x4 where x4: "scoreBattery (Fin b) = Fin x4" "0 \<le> x4" "x4 \<le> 20"
    using scoreBattery_Fin by blast
  let ?t = "x1 / 30 * (30 / 100) * 100 + x2 / 25 * (25 / 100) * 100
            + x3 / 25 * (25 / 100) * 100 + x4 / 20 * (20 / 100) * 100"
  have eq: "legacy_report.totalScore
              (scoreDevice \<lparr>cpu = Fin c, ram = Fin r, storage = Fin s, battery = Fin b\<rparr>)
            = Fin (of_int \<lfloor>?t + 1 / 2\<rfloor>)"
    using x1(1) x2(1) x3(1) x4(1)
    by (simp add: scoreDevice_def Let_def MAX_SCORES_def WEIGHTS_def)
  have "?t = x1 + x2 + x3 + x4" by simp
  then have "0 \<le> ?t" "?t \<le> 100" using x1 x2 x3 x4 by linarith+
  then show ?thesis using eq round_bounds by blast
qed

section \<open>The dispatcher's paths\<close>

lemma some_key_total: "(\<And>k. f k = Inr (g k)) \<Longrightarrow> some_key f ks = Inr (list_ex g ks)"
  by (induction ks) simp_all

lemma isStandardizedInput_plain:
  "''hasOwnProperty'' \<notin> fst ` set obj \<Longrightarrow>
   isStandardizedInput (Object obj)
     = Inr (list_ex (\<lambda>k. k \<in> fst ` set obj) standardizedKeys)"
  unfolding isStandardizedInput_def by (rule some_key_total) simp

lemma isStandardizedInput_shadowed:
  "''hasOwnProperty'' \<in> fst ` set obj \<Longrightarrow> isStandardizedInput (Object obj) = Inl TypeError"
  by (simp add: isStandardizedInput_def standardizedKeys_def)

lemma isStandardizedInput_null: "isStandardizedInput (Primitive JNull) = Inl TypeError"
  by (simp add: isStandardizedInput_def standardizedKeys_def)

lemma isStandardizedInput_no_prototype:
  "isStandardizedInput (NullProtoObject obj) = Inl TypeError"
  by (simp add: isStandardizedInput_def standardizedKeys_def)

lemma isStandardizedInput_primitive:
  "v \<noteq> JUndefined \<Longrightarrow> v \<noteq> JNull \<Longrightarrow> isStandardizedInput (Primitive v) = Inr False"
  by (cases v) (simp_all add: isStandardizedInput_def standardizedKeys_def)

lemma isStandardizedInput_keys:
  "fst ` set a = fst ` set b \<Longrightarrow>
   isStandardizedInput (Object a) = isStandardizedInput (Object b)"
  by (cases "''hasOwnProperty'' \<in> fst ` set a")
     (simp_all add: isStandardizedInput_plain isStandardizedInput_shadowed)

lemma try_throws: "isStandardizedInput i = Inl e \<Longrightarrow> evaluateDevice_try s2n i = Inl e"
  by (simp add: evaluateDevice_try_def)

lemma try_standardized:
  "isStandardizedInput i = Inr True \<Longrightarrow>
   evaluateDevice_try s2n i
     = Inr (standardizedEnvelope (evaluateDeviceStandardized s2n (ownProperties i)))"
  by (simp add: evaluateDevice_try_def)

lemma try_legacy:
  "isStandardizedInput i = Inr False \<Longrightarrow>
   evaluateDevice_try s2n i
     = Inr (legacyEnvelope (scoreDevice (legacyArguments s2n (ownProperties i))))"
  by (simp add: evaluateDevice_try_def)

lemma try_cases:
  "(\<exists>e. isStandardizedInput i = Inl e \<and> evaluateDevice_try s2n i = Inl e)
   \<or> (isStandardizedInput i = Inr True
       \<and> evaluateDevice_try s2n i
           = Inr (standardizedEnvelope (evaluateDeviceStandardized s2n (ownProperties i))))
   \<or> (isStandardizedInput i = Inr False
       \<and> evaluateDevice_try s2n i
           = Inr (legacyEnvelope (scoreDevice (legacyArguments s2n (ownProperties i)))))"
proof (cases "isStandardizedInput i")
  case (Inl e)
  then show ?thesis by (simp add: try_throws)
next
  case (Inr s)
  then show ?thesis by (cases s) (simp_all add: try_standardized try_legacy)
qed

lemma defaultInput_Object: "defaultInput (Object obj) = Object obj"
  by (simp add: defaultInput_def)

lemma evaluationModel_same_keys:
  assumes "fst ` set a = fst ` set b"
  shows "evaluationModel (evaluateDevice s2n (Object a))
           = evaluationModel (evaluateDevice s2n (Object b))"
proof (cases "isStandardizedInput (Object a)")
  case (Inl e)
  with assms have "isStandardizedInput (Object b) = Inl e"
    using isStandardizedInput_keys by metis
  with Inl show ?thesis
    by (simp add: evaluateDevice_def defaultInput_Object try_throws errorEnvelope_def)
next
  case (Inr s)
  with assms have b: "isStandardizedInput (Object b) = Inr s"
    using isStandardizedInput_keys by metis
  show ?thesis
  proof (cases s)
    case True
    with Inr b show ?thesis
      by (simp add: evaluateDevice_def defaultInput_Object try_standardized
          standardizedEnvelope_def)
  next
    case False
    with Inr b show ?thesis
      by (simp add: evaluateDevice_def defaultInput_Object try_legacy legacyEnvelope_def)
  qed
qed

lemma route_plain_object:
  assumes "''hasOwnProperty'' \<notin> fst ` set obj"
  shows "if (\<exists>k \<in> set standardizedKeys. k \<in> fst ` set obj)
         then evaluateDevice s2n (Object obj)
                = standardizedEnvelope (evaluateDeviceStandardized s2n obj)
         else evaluateDevice s2n (Object obj)
                = legacyEnvelope (scoreDevice (legacyArguments s2n obj))"
proof -
  from assms have "isStandardizedInput (Object obj)
      = Inr (\<exists>k \<in> set standardizedKeys. k \<in> fst ` set obj)"
    by (simp add: isStandardizedInput_plain list_ex_iff)
  then show ?thesis
    by (cases "\<exists>k \<in> set standardizedKeys. k \<in> fst ` set obj")
       (simp_all add: evaluateDevice_def defaultInput_Object try_standardized try_legacy)
qed

lemma throws_iff:
  "(\<exists>e. evaluateDevice_try s2n (defaultInput arg) = Inl e)
   = (arg = Primitive JNull
      \<or> (\<exists>obj. arg = Object obj \<and> ''hasOwnProperty'' \<in> fst ` set obj)
      \<or> (\<exists>obj. arg = NullProtoObject obj))"
proof (cases arg)
  case (Primitive v)
  show ?thesis
  proof (cases "v = JUndefined")
    case True
    with Primitive show ?thesis
      by (simp add: defaultInput_def evaluateDevice_try_def isStandardizedInput_plain)
  next
    case False
    show ?thesis
    proof (cases "v = JNull")
      case True
      with Primitive show ?thesis
        by (simp add: defaultInput_def evaluateDevice_try_def isStandardizedInput_null)
    next
      case False
      with Primitive \<open>v \<noteq> JUndefined\<close> show ?thesis
        by (simp add: defaultInput_def evaluateDevice_try_def isStandardizedInput_primitive)
    qed
  qed
next
  case (Object obj)
  show ?thesis
  proof (cases "''hasOwnProperty'' \<in> fst ` set obj")
    case True
    with Object show ?thesis
      by (simp add: defaultInput_def evaluateDevice_try_def isStandardizedInput_shadowed)
  next
    case False
    with Object show ?thesis
      by (simp add: defaultInput_def evaluateDevice_try_def isStandardizedInput_plain)
  qed
next
  case (NullProtoObject obj)
  then show ?thesis
    by (simp add: defaultInput_def evaluateDevice_try_def isStandardizedInput_no_prototype)
qed

lemma errorEnvelope_fields:
  "evaluationModel (errorEnvelope e) = ''ERROR''
   \<and> total_score (overall (errorEnvelope e)) = Fin 0
   \<and> overall.health (overall (errorEnvelope e)) = ''UNKNOWN''
   \<and> \<not> overall.reusable (overall (errorEnvelope e))"
  by (simp add: errorEnvelope_def)

lemma standardizedEnvelope_fields:
  "error (standardizedEnvelope r) = None
   \<and> evaluationModel (standardizedEnvelope r) = ''STANDARDIZED_HARDWARE_REUSABILITY''
   \<and> standardized (standardizedEnvelope r) = Some r
   \<and> overall.health (overall (standardizedEnvelope r)) \<in> {''GOOD'', ''FAIR'', ''POOR''}"
  by (simp add: standardizedEnvelope_def)

lemma legacyEnvelope_fields:
  "error (legacyEnvelope r) = None
   \<and> evaluationModel (legacyEnvelope r) = ''LEGACY_COMPONENT_HEALTH''
   \<and> legacy (legacyEnvelope r) = Some r
   \<and> overall.health (overall (legacyEnvelope r)) = legacy_report.health r"
  by (simp add: legacyEnvelope_def)

lemma legacy_health_cases:
  "legacy_report.health (scoreDevice i) \<in> {''GOOD'', ''FAIR'', ''POOR''}"
  by (simp add: scoreDevice_def Let_def getOverallHealth_def)

lemma returned_envelope:
  assumes "evaluateDevice_try s2n (defaultInput arg) = Inr r"
  shows "evaluateDevice s2n arg = r \<and> error r = None
     \<and> (evaluationModel r = ''STANDARDIZED_HARDWARE_REUSABILITY'' \<and> standardized r \<noteq> None
        \<or> evaluationModel r = ''LEGACY_COMPONENT_HEALTH'' \<and> legacy r \<noteq> None)
     \<and> overall.health (overall r) \<in> {''GOOD'', ''FAIR'', ''POOR''}"
proof -
  have result: "evaluateDevice s2n arg = r"
    using assms by (simp add: evaluateDevice_def)
  from try_cases [of "defaultInput arg" s2n] assms
  consider
      "r = standardizedEnvelope
             (evaluateDeviceStandardized s2n (ownProperties (defaultInput arg)))"
    | "r = legacyEnvelope (scoreDevice (legacyArguments s2n (ownProperties (defaultInput arg))))"
    by auto
  then show ?thesis
  proof cases
    case 1
    then show ?thesis using result standardizedEnvelope_fields by simp
  next
    case 2
    then show ?thesis using result legacyEnvelope_fields legacy_health_cases by simp
  qed
qed

section \<open>Total score range\<close>

lemma isValidNumber_iff: "isValidNumber v = (\<exists>r. v = JNum (Fin r))"
  by (cases v rule: isValidNumber.cases) simp_all

lemma getProp_valid:
  assumes "finiteNumericFields obj" and "k \<in> set legacyNumericKeys"
  shows "getProp obj k = JUndefined \<or> (\<exists>r. getProp obj k = JNum (Fin r))"
proof (cases "map_of obj k")
  case None
  then show ?thesis by (simp add: getProp_def)
next
  case (Some v)
  then have "(k, v) \<in> set obj" by (rule map_of_SomeD)
  with assms have "isValidNumber v" by (auto simp: finiteNumericFields_def list_all_iff)
  with Some show ?thesis by (simp add: getProp_def isValidNumber_iff)
qed

lemma picked_number:
  assumes "a = JUndefined \<or> (\<exists>r. a = JNum (Fin r))"
      and "b = JUndefined \<or> (\<exists>r. b = JNum (Fin r))"
  shows "\<exists>r. ToNumber s2n (nullish (nullish a b) (JNum (Fin 0))) = Fin r"
  using assms by auto

lemma legacyArguments_Fin:
  assumes "finiteNumericFields obj"
  shows "\<exists>c r s b. legacyArguments s2n obj
           = \<lparr>cpu = Fin c, ram = Fin r, storage = Fin s, battery = Fin b\<rparr>"
proof -
  have k: "''cpu_usage'' \<in> set legacyNumericKeys" "''cpu'' \<in> set legacyNumericKeys"
    "''ram_gb'' \<in> set legacyNumericKeys" "''ram'' \<in> set legacyNumericKeys"
    "''storage_health'' \<in> set legacyNumericKeys" "''storage'' \<in> set legacyNumericKeys"
    "''battery_health'' \<in> set legacyNumericKeys" "''battery'' \<in> set legacyNumericKeys"
    by (simp_all add: legacyNumericKeys_def)
  obtain c where c: "ToNumber s2n (nullish (nullish (getProp obj ''cpu_usage'')
      (getProp obj ''cpu'')) (JNum (Fin 0))) = Fin c"
    using picked_number [OF getProp_valid [OF assms k(1)] getProp_valid [OF assms k(2)]]
    by blast
  obtain r where r: "ToNumber s2n (nullish (nullish (getProp obj ''ram_gb'')
      (getProp obj ''ram'')) (JNum (Fin 0))) = Fin r"
    using picked_number [OF getProp_valid [OF assms k(3)] getProp_valid [OF assms k(4)]]
    by blast
  obtain s where s: "ToNumber s2n (nullish (nullish (getProp obj ''storage_health'')
      (getProp obj ''storage'')) (JNum (Fin 0))) = Fin s"
    using picked_number [OF getProp_valid [OF assms k(5)] getProp_valid [OF assms k(6)]]
    by blast
  obtain b where b: "ToNumber s2n (nullish (nullish (getProp obj ''battery_health'')
      (getProp obj ''battery'')) (JNum (Fin 0))) = Fin b"
    using picked_number [OF getProp_valid [OF assms k(7)] getProp_valid [OF assms k(8)]]
    by blast
  from c r s b show ?thesis by (simp add: legacyArguments_def)
qed

lemma dispatcher_total_bounds:
  assumes "finiteNumericFields (ownProperties (defaultInput arg))"
  shows "\<exists>t. total_score (overall (evaluateDevice s2n arg)) = Fin t \<and> 0 \<le> t \<and> t \<le> 100"
proof -
  let ?i = "defaultInput arg"
  from try_cases [of ?i s2n]
  consider e where "evaluateDevice_try s2n ?i = Inl e"
    | "evaluateDevice_try s2n ?i
         = Inr (standardizedEnvelope (evaluateDeviceStandardized s2n (ownProperties ?i)))"
    | "evaluateDevice_try s2n ?i
         = Inr (legacyEnvelope (scoreDevice (legacyArguments s2n (ownProperties ?i))))"
    by blast
  then show ?thesis
  proof cases
    case 1
    then show ?thesis by (simp add: evaluateDevice_def errorEnvelope_def)
  next
    case 2
    then show ?thesis using standardized_total_bounds [of s2n "ownProperties ?i"]
      by (simp add: evaluateDevice_def standardizedEnvelope_def)
  next
    case 3
    obtain c r s b where "legacyArguments s2n (ownProperties ?i)
        = \<lparr>cpu = Fin c, ram = Fin r, storage = Fin s, battery = Fin b\<rparr>"
      using legacyArguments_Fin [OF assms] by blast
    with 3 show ?thesis using legacy_total_bounds [of c r s b]
      by (simp add: evaluateDevice_def legacyEnvelope_def)
  qed
qed

text \<open>Without finiteness the legacy total is not a number at all.\<close>

lemma legacy_total_of_NaN:
  "legacy_report.totalScore
     (scoreDevice \<lparr>cpu = NaN, ram = Fin 8, storage = Fin 75, battery = Fin 80\<rparr>) = NaN"
  by (simp add: scoreDevice_def Let_def scoreCPU_def clamp_def)

text \<open>
  C3. The total score is a number between 0 and 100: for every standardized evaluation
  (whatever the payload holds), for every legacy evaluation of four finite numbers, and
  for the total the dispatcher reports on any argument whose legacy metric fields, where
  present, are finite numbers.
\<close>

theorem totalScore_in_range:
  "(\<exists>t. standardized_result.totalScore (evaluateDeviceStandardized s2n obj) = Fin t
        \<and> 0 \<le> t \<and> t \<le> 100)
   \<and> (\<exists>t. legacy_report.totalScore
             (scoreDevice \<lparr>cpu = Fin c, ram = Fin r, storage = Fin s, battery = Fin b\<rparr>) = Fin t
        \<and> 0 \<le> t \<and> t \<le> 100)
   \<and> (finiteNumericFields (ownProperties (defaultInput arg)) \<longrightarrow>
        (\<exists>t. total_score (overall (evaluateDevice s2n arg)) = Fin t \<and> 0 \<le> t \<and> t \<le> 100))"
  using standardized_total_bounds legacy_total_bounds dispatcher_total_bounds by blast

text \<open>Witness of C3: the legacy payload of the test script.\<close>

theorem totalScore_in_range_witness:
  "finiteNumericFields (ownProperties (defaultInput (Object legacyInput)))
   \<and> (\<exists>t. total_score (overall (evaluateDevice noNumericStrings (Object legacyInput))) = Fin t
        \<and> 0 \<le> t \<and> t \<le> 100)"
proof -
  have h: "finiteNumericFields (ownProperties (defaultInput (Object legacyInput)))"
    by (simp add: defaultInput_def legacyInput_def finiteNumericFields_def
        legacyNumericKeys_def)
  with totalScore_in_range [where arg = "Object legacyInput" and ?s2n = noNumericStrings]
  show ?thesis by blast
qed

section \<open>Routing\<close>

text \<open>
  C4, as stated, fails on two kinds of input object, each owning a standardized key. On an
  object that owns a property named \<open>hasOwnProperty\<close> the detection's call
  \<open>input.hasOwnProperty(key)\<close> finds that own property, which cannot be called. On an
  object without a prototype there is no such method to call. Both calls throw, and the
  result is the error envelope instead of the standardized one.
\<close>

theorem shadowed_hasOwnProperty_not_routed:
  "''storage_smart_status'' \<in> set standardizedKeys
   \<and> ''storage_smart_status'' \<in> fst ` set
        [(''hasOwnProperty'', JNum (Fin 1)), (''storage_smart_status'', JStr ''GOOD'')]
   \<and> evaluationModel (evaluateDevice noNumericStrings (Object
        [(''hasOwnProperty'', JNum (Fin 1)), (''storage_smart_status'', JStr ''GOOD'')]))
      = ''ERROR''
   \<and> standardized (evaluateDevice noNumericStrings (Object
        [(''hasOwnProperty'', JNum (Fin 1)), (''storage_smart_status'', JStr ''GOOD'')]))
      = None
   \<and> ''storage_smart_status'' \<in> fst ` set [(''storage_smart_status'', JStr ''GOOD'')]
   \<and> evaluationModel (evaluateDevice noNumericStrings (NullProtoObject
        [(''storage_smart_status'', JStr ''GOOD'')]))
      = ''ERROR''
   \<and> standardized (evaluateDevice noNumericStrings (NullProtoObject
        [(''storage_smart_status'', JStr ''GOOD'')]))
      = None"
  by (simp add: evaluateDevice_def defaultInput_def try_throws
      isStandardizedInput_shadowed isStandardizedInput_no_prototype errorEnvelope_def
      standardizedKeys_def)

text \<open>
  C4, amended. For every plain input object (its prototype is \<open>Object.prototype\<close>) that
  does not own a property named \<open>hasOwnProperty\<close> and whose fields hold primitive values:
  the detection answers by key presence alone; if the object owns at least one
  standardized key, whatever the value, the standardized pipeline is selected and the
  result is the standardized envelope of its evaluation; otherwise the legacy pipeline is
  selected and the result is the legacy envelope of its evaluation. Two plain objects
  with the same key sets get the same answer from the detection and the same evaluation
  model, whatever primitive values they hold.
\<close>

theorem dispatcher_routes_by_key_presence:
  "(''hasOwnProperty'' \<notin> fst ` set obj \<longrightarrow>
      isStandardizedInput (Object obj)
        = Inr (\<exists>k \<in> set standardizedKeys. k \<in> fst ` set obj)
      \<and> (if (\<exists>k \<in> set standardizedKeys. k \<in> fst ` set obj)
         then evaluateDevice s2n (Object obj)
                = standardizedEnvelope (evaluateDeviceStandardized s2n obj)
              \<and> evaluationModel (evaluateDevice s2n (Object obj))
                = ''STANDARDIZED_HARDWARE_REUSABILITY''
         else evaluateDevice s2n (Object obj)
                = legacyEnvelope (scoreDevice (legacyArguments s2n obj))
              \<and> evaluationModel (evaluateDevice s2n (Object obj))
                = ''LEGACY_COMPONENT_HEALTH''))
   \<and> (fst ` set a = fst ` set b \<longrightarrow>
        isStandardizedInput (Object a) = isStandardizedInput (Object b)
        \<and> evaluationModel (evaluateDevice s2n (Object a))
          = evaluationModel (evaluateDevice s2n (Object b)))"
proof -
  have 1: "''hasOwnProperty'' \<notin> fst ` set obj \<longrightarrow>
      isStandardizedInput (Object obj)
        = Inr (\<exists>k \<in> set standardizedKeys. k \<in> fst ` set obj)
      \<and> (if (\<exists>k \<in> set standardizedKeys. k \<in> fst ` set obj)
         then evaluateDevice s2n (Object obj)
                = standardizedEnvelope (evaluateDeviceStandardized s2n obj)
              \<and> evaluationModel (evaluateDevice s2n (Object obj))
                = ''STANDARDIZED_HARDWARE_REUSABILITY''
         else evaluateDevice s2n (Object obj)
                = legacyEnvelope (scoreDevice (legacyArguments s2n obj))
              \<and> evaluationModel (evaluateDevice s2n (Object obj))
                = ''LEGACY_COMPONENT_HEALTH'')"
  proof
    assume h: "''hasOwnProperty'' \<notin> fst ` set obj"
    have detected: "isStandardizedInput (Object obj)
        = Inr (\<exists>k \<in> set standardizedKeys. k \<in> fst ` set obj)"
      using h by (simp add: isStandardizedInput_plain list_ex_iff)
    have routed: "if (\<exists>k \<in> set standardizedKeys. k \<in> fst ` set obj)
       then evaluateDevice s2n (Object obj)
              = standardizedEnvelope (evaluateDeviceStandardized s2n obj)
            \<and> evaluationModel (evaluateDevice s2n (Object obj))
              = ''STANDARDIZED_HARDWARE_REUSABILITY''
       else evaluateDevice s2n (Object obj)
              = legacyEnvelope (scoreDevice (legacyArguments s2n obj))
            \<and> evaluationModel (evaluateDevice s2n (Object obj))
              = ''LEGACY_COMPONENT_HEALTH''"
      using route_plain_object [OF h, of s2n]
      by (cases "\<exists>k \<in> set standardizedKeys. k \<in> fst ` set obj")
         (simp_all add: standardizedEnvelope_fields legacyEnvelope_fields)
    from detected routed
    show "isStandardizedInput (Object obj)
        = Inr (\<exists>k \<in> set standardizedKeys. k \<in> fst ` set obj)
      \<and> (if (\<exists>k \<in> set standardizedKeys. k \<in> fst ` set obj)
         then evaluateDevice s2n (Object obj)
                = standardizedEnvelope (evaluateDeviceStandardized s2n obj)
              \<and> evaluationModel (evaluateDevice s2n (Object obj))
                = ''STANDARDIZED_HARDWARE_REUSABILITY''
         else evaluateDevice s2n (Object obj)
                = legacyEnvelope (scoreDevice (legacyArguments s2n obj))
              \<and> evaluationModel (evaluateDevice s2n (Object obj))
                = ''LEGACY_COMPONENT_HEALTH'')"
      by (rule conjI)
  qed
  have 2: "fst ` set a = fst ` set b \<longrightarrow>
        isStandardizedInput (Object a) = isStandardizedInput (Object b)
        \<and> evaluationModel (evaluateDevice s2n (Object a))
          = evaluationModel (evaluateDevice s2n (Object b))"
    using evaluationModel_same_keys isStandardizedInput_keys by blast
  from 1 2 show ?thesis by (rule conjI)
qed

text \<open>
  Witness of C4: a plain object whose only field is a standardized key holding
  \<open>undefined\<close> is routed to the standardized pipeline, like the object holding \<open>"GOOD"\<close>
  under that key.
\<close>

theorem dispatcher_routes_by_key_presence_witness:
  "''hasOwnProperty'' \<notin> fst ` set [(''storage_smart_status'', JUndefined)]
   \<and> isStandardizedInput (Object [(''storage_smart_status'', JUndefined)]) = Inr True
   \<and> evaluationModel (evaluateDevice noNumericStrings
        (Object [(''storage_smart_status'', JUndefined)]))
      = ''STANDARDIZED_HARDWARE_REUSABILITY''
   \<and> fst ` set [(''storage_smart_status'', JUndefined)]
      = fst ` set [(''storage_smart_status'', JStr ''GOOD'')]
   \<and> evaluationModel (evaluateDevice noNumericStrings
        (Object [(''storage_smart_status'', JUndefined)]))
      = evaluationModel (evaluateDevice noNumericStrings
        (Object [(''storage_smart_status'', JStr ''GOOD'')]))"
proof -
  note routed = dispatcher_routes_by_key_presence
    [where obj = "[(''storage_smart_status'', JUndefined)]" and ?s2n = noNumericStrings
       and a = "[(''storage_smart_status'', JUndefined)]"
       and b = "[(''storage_smart_status'', JStr ''GOOD'')]"]
  have plain: "''hasOwnProperty'' \<notin> fst ` set [(''storage_smart_status'', JUndefined)]"
    by simp
  have owns: "\<exists>k \<in> set standardizedKeys. k \<in> fst ` set [(''storage_smart_status'', JUndefined)]"
    by (simp add: standardizedKeys_def)
  have same: "fst ` set [(''storage_smart_status'', JUndefined)]
      = fst ` set [(''storage_smart_status'', JStr ''GOOD'')]"
    by simp
  from routed plain owns
  have detected: "isStandardizedInput (Object [(''storage_smart_status'', JUndefined)])
      = Inr True"
    by simp
  from routed plain owns
  have tag: "evaluationModel (evaluateDevice noNumericStrings
        (Object [(''storage_smart_status'', JUndefined)]))
      = ''STANDARDIZED_HARDWARE_REUSABILITY''"
    by meson
  from routed same
  have eq: "evaluationModel (evaluateDevice noNumericStrings
        (Object [(''storage_smart_status'', JUndefined)]))
      = evaluationModel (evaluateDevice noNumericStrings
        (Object [(''storage_smart_status'', JStr ''GOOD'')]))"
    by blast
  from plain detected tag same eq show ?thesis by (intro conjI)
qed

section \<open>Faults\<close>

text \<open>
  On data payloads every fault is caught. When the body of the \<open>try\<close> block throws, the
  result is the error envelope: model tag ERROR, total score 0, health UNKNOWN, not
  reusable. When the body returns, the result is the envelope it returned, without an
  error field, tagged with the model used and carrying that model's result, with an
  overall health among GOOD, FAIR and POOR. On data payloads the body throws exactly on
  \<open>null\<close>, on a plain object that owns a property named \<open>hasOwnProperty\<close>, and on an object
  without a prototype; what it throws is a \<open>TypeError\<close>.
\<close>

lemma data_payload_faults_are_caught:
  "(evaluateDevice_try s2n (defaultInput arg) = Inl e \<longrightarrow>
      evaluateDevice s2n arg = errorEnvelope (Some e)
      \<and> evaluationModel (evaluateDevice s2n arg) = ''ERROR''
      \<and> total_score (overall (evaluateDevice s2n arg)) = Fin 0
      \<and> overall.health (overall (evaluateDevice s2n arg)) = ''UNKNOWN''
      \<and> \<not> overall.reusable (overall (evaluateDevice s2n arg)))
   \<and> (evaluateDevice_try s2n (defaultInput arg) = Inr r \<longrightarrow>
      evaluateDevice s2n arg = r \<and> error r = None
      \<and> (evaluationModel r = ''STANDARDIZED_HARDWARE_REUSABILITY'' \<and> standardized r \<noteq> None
         \<or> evaluationModel r = ''LEGACY_COMPONENT_HEALTH'' \<and> legacy r \<noteq> None)
      \<and> overall.health (overall r) \<in> {''GOOD'', ''FAIR'', ''POOR''})
   \<and> ((\<exists>e. evaluateDevice_try s2n (defaultInput arg) = Inl e)
        = (arg = Primitive JNull
           \<or> (\<exists>obj. arg = Object obj \<and> ''hasOwnProperty'' \<in> fst ` set obj)
           \<or> (\<exists>obj. arg = NullProtoObject obj)))"
proof -
  have 1: "evaluateDevice_try s2n (defaultInput arg) = Inl e \<longrightarrow>
      evaluateDevice s2n arg = errorEnvelope (Some e)
      \<and> evaluationModel (evaluateDevice s2n arg) = ''ERROR''
      \<and> total_score (overall (evaluateDevice s2n arg)) = Fin 0
      \<and> overall.health (overall (evaluateDevice s2n arg)) = ''UNKNOWN''
      \<and> \<not> overall.reusable (overall (evaluateDevice s2n arg))"
    by (simp add: evaluateDevice_def errorEnvelope_fields)
  have 2: "evaluateDevice_try s2n (defaultInput arg) = Inr r \<longrightarrow>
      evaluateDevice s2n arg = r \<and> error r = None
      \<and> (evaluationModel r = ''STANDARDIZED_HARDWARE_REUSABILITY'' \<and> standardized r \<noteq> None
         \<or> evaluationModel r = ''LEGACY_COMPONENT_HEALTH'' \<and> legacy r \<noteq> None)
      \<and> overall.health (overall r) \<in> {''GOOD'', ''FAIR'', ''POOR''}"
    using returned_envelope by blast
  from 1 2 throws_iff [of s2n arg] show ?thesis by blast
qed

text \<open>
  On a data payload a call of the dispatcher returns what the total function
  \<open>evaluateDevice\<close> gives: an error the engine raised has a message to read.
\<close>

lemma catchBlock_Raised: "catchBlock (Raised e) = Inr (errorEnvelope (Some e))"
  by (simp add: catchBlock_def)

lemma evaluateDevice_call_Data:
  "evaluateDevice_call s2n (Data arg) = Inr (evaluateDevice s2n arg)"
  by (cases "evaluateDevice_try s2n (defaultInput arg)")
     (simp_all add: tryCatch_def evaluateDevice_def catchBlock_Raised)

lemma catchBlock_other_primitive:
  "v \<noteq> JUndefined \<Longrightarrow> v \<noteq> JNull \<Longrightarrow> catchBlock (Thrown v) = Inr (errorEnvelope None)"
  by (cases v) (simp_all add: catchBlock_def)

text \<open>
  C5. The claim lets no exception leave the dispatcher, whatever an internal step throws.
  On the argument \<open>{ hasOwnProperty() { throw null } }\<close> the detection calls the object's
  own method, which throws \<open>null\<close>; the \<open>catch\<close> block's read of \<open>error.message\<close> then throws
  a \<open>TypeError\<close> that nothing catches, and the call of the dispatcher throws instead of
  returning the error envelope. The same happens whenever a step of the \<open>try\<close> block
  throws \<open>null\<close> or \<open>undefined\<close>.
\<close>

theorem thrown_null_escapes_the_dispatcher:
  "evaluateDevice_call noNumericStrings (MethodObject throwsNull []) = Inl TypeError
   \<and> tryCatch (Inl (Thrown JNull)) = Inl TypeError
   \<and> tryCatch (Inl (Thrown JUndefined)) = Inl TypeError"
  by (simp add: tryCatch_def catchBlock_def throwsNull_def standardizedKeys_def)

section \<open>Longevity\<close>

lemma times_penalty_NaN: "times_penalty NaN p = NaN"
  by (cases p) simp_all

lemma foldl_times_penalty_NaN: "foldl times_penalty NaN ps = NaN"
  by (induction ps) (simp_all add: times_penalty_NaN)

lemma foldl_times_penalty_table:
  "PTable t \<in> set ps \<Longrightarrow> foldl times_penalty a ps = NaN"
proof (induction ps arbitrary: a)
  case Nil
  then show ?case by simp
next
  case (Cons p ps)
  show ?case
  proof (cases p)
    case (PNumber n)
    with Cons show ?thesis by auto
  next
    case (PTable u)
    then show ?thesis by (simp add: foldl_times_penalty_NaN)
  qed
qed

text \<open>
  What the lookup \<open>LONGEVITY_PENALTIES[label] || fallback\<close> yields: the number 1 under
  GOOD, the whole per-component table under FAIR and POOR, the fallback number otherwise.
\<close>

lemma penalty_lookup:
  "penalty_or (map_of LONGEVITY_PENALTIES h) d =
     (if h = ''GOOD'' then PNumber 1
      else if h = ''FAIR'' then PTable LONGEVITY_PENALTIES_FAIR
      else if h = ''POOR'' then PTable LONGEVITY_PENALTIES_POOR else PNumber d)"
  by (simp add: LONGEVITY_PENALTIES_def)

lemma estimateLongevityYears_NaN:
  assumes "list_ex (\<lambda>c. component_summary.health c = ''FAIR''
                        \<or> component_summary.health c = ''POOR'') (Object_values comps)"
  shows "estimateLongevityYears t comps = NaN"
proof -
  let ?ps =
    "[penalty_or (map_of LONGEVITY_PENALTIES (component_summary.health (battery comps)))
        (battery LONGEVITY_PENALTIES_POOR),
      penalty_or (map_of LONGEVITY_PENALTIES (component_summary.health (cpu comps)))
        (cpu LONGEVITY_PENALTIES_POOR),
      penalty_or (map_of LONGEVITY_PENALTIES (component_summary.health (storage comps)))
        (storage LONGEVITY_PENALTIES_POOR),
      penalty_or (map_of LONGEVITY_PENALTIES (component_summary.health (ram comps)))
        (ram LONGEVITY_PENALTIES_POOR)]"
  from assms have "\<exists>t. PTable t \<in> set ?ps"
    by (auto simp: Object_values_def penalty_lookup)
  then have "foldl times_penalty (Fin 1) ?ps = NaN"
    using foldl_times_penalty_table by blast
  then show ?thesis
    by (simp add: estimateLongevityYears_def Let_def js_mul_NaN_right)
qed

lemma estimateLongevityYears_all_good:
  assumes "list_all (\<lambda>c. component_summary.health c = ''GOOD'') (Object_values comps)"
  shows "estimateLongevityYears (Fin t) comps
           = Fin (of_int \<lfloor>max 0 (max 0 (min 100 t) / 100 * 6) * 10 + 1 / 2\<rfloor> / 10)"
  using assms
  by (simp add: estimateLongevityYears_def Let_def Object_values_def penalty_lookup clamp_def)

lemma cpu_60_is_fair: "getComponentHealth (scoreCPU (Fin 60)) (cpu MAX_SCORES) = ''FAIR''"
  by (simp add: getComponentHealth_def scoreCPU_def clamp_def MAX_SCORES_def Let_def
      COMPONENT_THRESHOLDS_good_def COMPONENT_THRESHOLDS_fair_def)

lemma cpu_65_is_fair: "getComponentHealth (scoreCPU (Fin 65)) (cpu MAX_SCORES) = ''FAIR''"
  by (simp add: getComponentHealth_def scoreCPU_def clamp_def MAX_SCORES_def Let_def
      COMPONENT_THRESHOLDS_good_def COMPONENT_THRESHOLDS_fair_def)

lemma battery_100_scores_20: "scoreBattery (Fin 100) = Fin 20"
  by (simp add: scoreBattery_def clamp_def MAX_SCORES_def Let_def)

lemma sample_components:
  "components (scoreDevice \<lparr>cpu = Fin 60, ram = Fin 32, storage = Fin 100, battery = Fin 100\<rparr>)
     = \<lparr>cpu = \<lparr>component_summary.health = ''FAIR''\<rparr>,
        ram = \<lparr>component_summary.health = ''GOOD''\<rparr>,
        storage = \<lparr>component_summary.health = ''GOOD''\<rparr>,
        battery = \<lparr>component_summary.health = ''GOOD''\<rparr>\<rparr>"
  by (simp add: scoreDevice_def Let_def battery_100_scores_20 getComponentHealth_def
      scoreCPU_def scoreRAM_def scoreStorage_def clamp_def MAX_SCORES_def
      COMPONENT_THRESHOLDS_good_def COMPONENT_THRESHOLDS_fair_def)

lemma sample_total:
  "legacy_report.totalScore
     (scoreDevice \<lparr>cpu = Fin 60, ram = Fin 32, storage = Fin 100, battery = Fin 100\<rparr>) = Fin 88"
  by (simp add: scoreDevice_def Let_def battery_100_scores_20 scoreCPU_def scoreRAM_def
      scoreStorage_def clamp_def MAX_SCORES_def WEIGHTS_def)

lemma sample_arguments:
  "legacyArguments s2n [(''cpu'', JNum (Fin 60)), (''ram'', JNum (Fin 32)),
      (''storage'', JNum (Fin 100)), (''battery'', JNum (Fin 100))]
     = \<lparr>cpu = Fin 60, ram = Fin 32, storage = Fin 100, battery = Fin 100\<rparr>"
  by (simp add: legacyArguments_def getProp_def)

lemma legacyInput_arguments:
  "legacyArguments s2n legacyInput
     = \<lparr>cpu = Fin 65, ram = Fin 8, storage = Fin 75, battery = Fin 80\<rparr>"
  by (simp add: legacyArguments_def getProp_def legacyInput_def)

lemma longevity_of_sample:
  "yearsRemaining (longevity
     (scoreDevice \<lparr>cpu = Fin 60, ram = Fin 32, storage = Fin 100, battery = Fin 100\<rparr>)) = NaN"
  by (simp add: scoreDevice_def Let_def estimateLongevityYears_NaN Object_values_def
      cpu_60_is_fair)

lemma longevity_of_legacyInput:
  "yearsRemaining (longevity
     (scoreDevice \<lparr>cpu = Fin 65, ram = Fin 8, storage = Fin 75, battery = Fin 80\<rparr>)) = NaN"
  by (simp add: scoreDevice_def Let_def estimateLongevityYears_NaN Object_values_def
      cpu_65_is_fair)

lemma dispatched_sample:
  "evaluateDevice s2n (Object [(''cpu'', JNum (Fin 60)), (''ram'', JNum (Fin 32)),
      (''storage'', JNum (Fin 100)), (''battery'', JNum (Fin 100))])
     = legacyEnvelope
         (scoreDevice \<lparr>cpu = Fin 60, ram = Fin 32, storage = Fin 100, battery = Fin 100\<rparr>)"
  using route_plain_object [of "[(''cpu'', JNum (Fin 60)), (''ram'', JNum (Fin 32)),
      (''storage'', JNum (Fin 100)), (''battery'', JNum (Fin 100))]" s2n]
  by (simp add: standardizedKeys_def sample_arguments)

text \<open>
  C2. The claim makes the longevity estimate a finite number: six years scaled by the
  total score, times one factor per component. On the payload
  \<open>{cpu: 60, ram: 32, storage: 100, battery: 100}\<close> (total score 88, the CPU FAIR, the
  other components GOOD) the claim gives 5.28 * 0.85 rounded to one decimal, 4.5. The
  estimator takes the whole FAIR row of the penalty table as the CPU's factor, and the
  product with that object is \<open>NaN\<close>: the report's \<open>yearsRemaining\<close> and the envelope's
  \<open>longevity_years\<close> are \<open>NaN\<close>, as they are on the legacy payload of the test script. The
  older estimator, on the same total and components, penalises a FAIR CPU by nothing and
  yields 5.3.
\<close>

theorem longevity_is_NaN_beside_a_fair_cpu:
  "yearsRemaining (longevity
     (scoreDevice \<lparr>cpu = Fin 60, ram = Fin 32, storage = Fin 100, battery = Fin 100\<rparr>)) = NaN
   \<and> longevity_years (overall (evaluateDevice noNumericStrings
        (Object [(''cpu'', JNum (Fin 60)), (''ram'', JNum (Fin 32)),
                 (''storage'', JNum (Fin 100)), (''battery'', JNum (Fin 100))]))) = Some NaN
   \<and> yearsRemaining (longevity
        (scoreDevice (legacyArguments noNumericStrings legacyInput))) = NaN
   \<and> estimateLongevityYears_inline (Fin 88)
        (components (scoreDevice
           \<lparr>cpu = Fin 60, ram = Fin 32, storage = Fin 100, battery = Fin 100\<rparr>))
      = Fin (53 / 10)"
proof -
  have a: "yearsRemaining (longevity
     (scoreDevice \<lparr>cpu = Fin 60, ram = Fin 32, storage = Fin 100, battery = Fin 100\<rparr>)) = NaN"
    by (rule longevity_of_sample)
  have b: "longevity_years (overall (evaluateDevice noNumericStrings
        (Object [(''cpu'', JNum (Fin 60)), (''ram'', JNum (Fin 32)),
                 (''storage'', JNum (Fin 100)), (''battery'', JNum (Fin 100))]))) = Some NaN"
    by (simp add: dispatched_sample legacyEnvelope_def longevity_of_sample)
  have c: "yearsRemaining (longevity
        (scoreDevice (legacyArguments noNumericStrings legacyInput))) = NaN"
    by (simp add: legacyInput_arguments longevity_of_legacyInput)
  have d: "estimateLongevityYears_inline (Fin 88)
        (components (scoreDevice
           \<lparr>cpu = Fin 60, ram = Fin 32, storage = Fin 100, battery = Fin 100\<rparr>))
      = Fin (53 / 10)"
    by (simp add: sample_components estimateLongevityYears_inline_def Let_def clamp_def)
  from a b c d show ?thesis by (intro conjI)
qed

section \<open>Boolean flags\<close>

text \<open>
  C9, as stated, fails: normalization keeps the string \<open>"yes"\<close> under \<open>cpu_throttling\<close> as
  it is, and with an unstable CPU the scorer reads that flag by truthiness, so the CPU
  sub-score is 6 where the flag \<open>false\<close> gives 0.
\<close>

theorem truthy_throttling_is_not_false:
  "cpu_throttling (normalizeInput noNumericStrings
      [(''cpu_stress_stable'', JBool False), (''cpu_throttling'', JStr ''yes'')])
     = JStr ''yes''
   \<and> cpu_score (details (scoreFunctionalIntegrity (normalizeInput noNumericStrings
        [(''cpu_stress_stable'', JBool False), (''cpu_throttling'', JStr ''yes'')]))) = Fin 6
   \<and> cpu_score (details (scoreFunctionalIntegrity (normalizeInput noNumericStrings
        [(''cpu_stress_stable'', JBool False), (''cpu_throttling'', JBool False)]))) = Fin 0"
  by (simp add: normalizeInput_def getProp_def scoreFunctionalIntegrity_def Let_def)

lemma damage_by_equality:
  "v \<noteq> JBool True \<Longrightarrow>
   normalizeInput s2n ((''physical_damage'', v) # input)
     = normalizeInput s2n ((''physical_damage'', JBool False) # input)"
  by (simp add: normalizeInput_def getProp_Cons)

lemma ports_by_equality:
  "v \<noteq> JBool False \<Longrightarrow>
   normalizeInput s2n ((''port_integrity'', v) # input)
     = normalizeInput s2n ((''port_integrity'', JBool True) # input)"
  by (simp add: normalizeInput_def getProp_Cons)

lemma cpu_stable_by_equality:
  "v \<noteq> JUndefined \<Longrightarrow> v \<noteq> JNull \<Longrightarrow> v \<noteq> JBool True \<Longrightarrow> v \<noteq> JBool False \<Longrightarrow>
   cpu_score (details (scoreFunctionalIntegrity
     (normalizeInput s2n ((''cpu_stress_stable'', v) # input)))) = Fin 0"
  by (cases v) (simp_all add: normalizeInput_def getProp_Cons scoreFunctionalIntegrity_def Let_def)

lemma gpu_stable_by_equality:
  "v \<noteq> JUndefined \<Longrightarrow> v \<noteq> JNull \<Longrightarrow> v \<noteq> JBool True \<Longrightarrow> v \<noteq> JBool False \<Longrightarrow>
   gpu_score (details (scoreFunctionalIntegrity
     (normalizeInput s2n ((''gpu_stress_stable'', v) # input)))) = Fin 0"
  by (cases v) (simp_all add: normalizeInput_def getProp_Cons scoreFunctionalIntegrity_def Let_def)

text \<open>
  C9, amended. Normalization coerces \<open>physical_damage\<close> and \<open>port_integrity\<close> by explicit
  equality: a payload whose \<open>physical_damage\<close> is anything but \<open>true\<close> is evaluated exactly
  like the payload holding \<open>false\<close> there, and one whose \<open>port_integrity\<close> is anything but
  \<open>false\<close> exactly like the payload holding \<open>true\<close>. The other four flags are only
  defaulted: \<open>undefined\<close> and \<open>null\<close> become \<open>false\<close>, every other value is stored as given.
  The CPU and GPU sub-scores compare the stable flag by strict equality: a stable flag
  that is neither a Boolean nor \<open>undefined\<close> or \<open>null\<close> scores 0.
\<close>

theorem boolean_flags_as_normalized:
  "(v \<noteq> JBool True \<longrightarrow>
      normalizeInput s2n ((''physical_damage'', v) # input)
        = normalizeInput s2n ((''physical_damage'', JBool False) # input)
      \<and> evaluateDeviceStandardized s2n ((''physical_damage'', v) # input)
        = evaluateDeviceStandardized s2n ((''physical_damage'', JBool False) # input))
   \<and> (v \<noteq> JBool False \<longrightarrow>
      normalizeInput s2n ((''port_integrity'', v) # input)
        = normalizeInput s2n ((''port_integrity'', JBool True) # input)
      \<and> evaluateDeviceStandardized s2n ((''port_integrity'', v) # input)
        = evaluateDeviceStandardized s2n ((''port_integrity'', JBool True) # input))
   \<and> cpu_stress_stable (normalizeInput s2n input)
        = nullish (getProp input ''cpu_stress_stable'') (JBool False)
   \<and> cpu_throttling (normalizeInput s2n input)
        = nullish (getProp input ''cpu_throttling'') (JBool False)
   \<and> gpu_stress_stable (normalizeInput s2n input)
        = nullish (getProp input ''gpu_stress_stable'') (JBool False)
   \<and> gpu_artifacts (normalizeInput s2n input)
        = nullish (getProp input ''gpu_artifacts'') (JBool False)
   \<and> (v \<noteq> JUndefined \<and> v \<noteq> JNull \<and> v \<noteq> JBool True \<and> v \<noteq> JBool False \<longrightarrow>
        cpu_score (details (scoreFunctionalIntegrity
          (normalizeInput s2n ((''cpu_stress_stable'', v) # input)))) = Fin 0
        \<and> gpu_score (details (scoreFunctionalIntegrity
          (normalizeInput s2n ((''gpu_stress_stable'', v) # input)))) = Fin 0)"
proof -
  have 1: "v \<noteq> JBool True \<longrightarrow>
      normalizeInput s2n ((''physical_damage'', v) # input)
        = normalizeInput s2n ((''physical_damage'', JBool False) # input)
      \<and> evaluateDeviceStandardized s2n ((''physical_damage'', v) # input)
        = evaluateDeviceStandardized s2n ((''physical_damage'', JBool False) # input)"
  proof
    assume h: "v \<noteq> JBool True"
    have "evaluateDeviceStandardized s2n ((''physical_damage'', v) # input)
        = evaluateDeviceStandardized s2n ((''physical_damage'', JBool False) # input)"
      unfolding evaluateDeviceStandardized_def damage_by_equality [OF h] by (rule refl)
    with damage_by_equality [OF h, of s2n input]
    show "normalizeInput s2n ((''physical_damage'', v) # input)
        = normalizeInput s2n ((''physical_damage'', JBool False) # input)
      \<and> evaluateDeviceStandardized s2n ((''physical_damage'', v) # input)
        = evaluateDeviceStandardized s2n ((''physical_damage'', JBool False) # input)"
      by (rule conjI)
  qed
  have 2: "v \<noteq> JBool False \<longrightarrow>
      normalizeInput s2n ((''port_integrity'', v) # input)
        = normalizeInput s2n ((''port_integrity'', JBool True) # input)
      \<and> evaluateDeviceStandardized s2n ((''port_integrity'', v) # input)
        = evaluateDeviceStandardized s2n ((''port_integrity'', JBool True) # input)"
  proof
    assume h: "v \<noteq> JBool False"
    have "evaluateDeviceStandardized s2n ((''port_integrity'', v) # input)
        = evaluateDeviceStandardized s2n ((''port_integrity'', JBool True) # input)"
      unfolding evaluateDeviceStandardized_def ports_by_equality [OF h] by (rule refl)
    with ports_by_equality [OF h, of s2n input]
    show "normalizeInput s2n ((''port_integrity'', v) # input)
        = normalizeInput s2n ((''port_integrity'', JBool True) # input)
      \<and> evaluateDeviceStandardized s2n ((''port_integrity'', v) # input)
        = evaluateDeviceStandardized s2n ((''port_integrity'', JBool True) # input)"
      by (rule conjI)
  qed
  have 3: "cpu_stress_stable (normalizeInput s2n input)
        = nullish (getProp input ''cpu_stress_stable'') (JBool False)"
    "cpu_throttling (normalizeInput s2n input)
        = nullish (getProp input ''cpu_throttling'') (JBool False)"
    "gpu_stress_stable (normalizeInput s2n input)
        = nullish (getProp input ''gpu_stress_stable'') (JBool False)"
    "gpu_artifacts (normalizeInput s2n input)
        = nullish (getProp input ''gpu_artifacts'') (JBool False)"
    by (simp_all add: normalizeInput_def)
  have 4: "v \<noteq> JUndefined \<and> v \<noteq> JNull \<and> v \<noteq> JBool True \<and> v \<noteq> JBool False \<longrightarrow>
        cpu_score (details (scoreFunctionalIntegrity
          (normalizeInput s2n ((''cpu_stress_stable'', v) # input)))) = Fin 0
        \<and> gpu_score (details (scoreFunctionalIntegrity
          (normalizeInput s2n ((''gpu_stress_stable'', v) # input)))) = Fin 0"
    using cpu_stable_by_equality gpu_stable_by_equality by blast
  from 1 2 3 4 show ?thesis by (intro conjI)
qed

text \<open>
  Witness of C9: the string \<open>"yes"\<close> on the high-grade sample payload. As
  \<open>physical_damage\<close> it is evaluated like \<open>false\<close>, as \<open>port_integrity\<close> like \<open>true\<close>, and as
  \<open>cpu_stress_stable\<close> it earns the CPU no points.
\<close>

theorem boolean_flags_as_normalized_witness:
  "JStr ''yes'' \<noteq> JBool True \<and> JStr ''yes'' \<noteq> JBool False
   \<and> JStr ''yes'' \<noteq> JUndefined \<and> JStr ''yes'' \<noteq> JNull
   \<and> evaluateDeviceStandardized noNumericStrings
        ((''physical_damage'', JStr ''yes'') # standardizedHighGrade)
      = evaluateDeviceStandardized noNumericStrings
        ((''physical_damage'', JBool False) # standardizedHighGrade)
   \<and> evaluateDeviceStandardized noNumericStrings
        ((''port_integrity'', JStr ''yes'') # standardizedHighGrade)
      = evaluateDeviceStandardized noNumericStrings
        ((''port_integrity'', JBool True) # standardizedHighGrade)
   \<and> cpu_score (details (scoreFunctionalIntegrity (normalizeInput noNumericStrings
        ((''cpu_stress_stable'', JStr ''yes'') # standardizedHighGrade)))) = Fin 0"
  using boolean_flags_as_normalized [where v = "JStr ''yes''" and ?s2n = noNumericStrings
      and input = standardizedHighGrade]
  by simp

end
